theory Spec2Isabelle
  imports Main "HOL-Library.Word"
begin

section \<open>Python values read by the flow-diagram builder\<close>

text \<open>
  The builder \<^verbatim>\<open>concept_prediction_sankey\<close> of \<^verbatim>\<open>sankey_experiments.py\<close> raises
  \<^verbatim>\<open>ValueError\<close> itself; the built-in operations it calls can raise
  \<^verbatim>\<open>OverflowError\<close> (\<^verbatim>\<open>float(v)\<close>), \<^verbatim>\<open>ZeroDivisionError\<close> (\<^verbatim>\<open>i % n\<close>) and
  \<^verbatim>\<open>IndexError\<close> (\<^verbatim>\<open>xs[i]\<close>); and the charting library, when it is handed the arrays,
  raises a \<^verbatim>\<open>ValueError\<close> of its own for a colour array that holds a string it does not
  take for a colour. Every one of them is a value of the model. The library's error is kept
  apart from the builder's two and holds the property whose value the library refused.
\<close>

datatype error =
    ValueError string
  | OverflowError string
  | ZeroDivisionError
  | IndexError
  | PlotlyValueError string

text \<open>
  A Python \<^verbatim>\<open>float\<close> is an IEEE 754 binary64 number: a sign, an 11-bit biased exponent
  field and a 52-bit fraction field. Both zeros have exponent and fraction 0; infinities
  and NaNs have exponent 2047.
\<close>

datatype pyfloat = Float (fsign: bool) (fexp: "11 word") (ffrac: "52 word")

text \<open>
  The cells of \<^verbatim>\<open>flows\<close> are annotated \<^verbatim>\<open>float\<close>; Python accepts an \<^verbatim>\<open>int\<close> wherever a
  \<^verbatim>\<open>float\<close> is expected (the builder calls \<^verbatim>\<open>float(v)\<close> on every cell it keeps), so a
  cell is an unbounded integer or a float.
\<close>

datatype pynum = PyInt int | PyFloat pyfloat

text \<open>\<^verbatim>\<open>v == 0\<close>: an integer equals 0 when it is 0, a float when it is +0.0 or -0.0
  (a NaN equals nothing).\<close>

fun py_eq_zero :: "pynum \<Rightarrow> bool" where
  "py_eq_zero (PyInt n) = (n = 0)"
| "py_eq_zero (PyFloat f) = (fexp f = 0 \<and> ffrac f = 0)"

text \<open>\<^verbatim>\<open>int.bit_length()\<close> of a non-negative integer.\<close>

fun bit_length :: "nat \<Rightarrow> nat" where
  "bit_length n = (if n = 0 then 0 else Suc (bit_length (n div 2)))"

declare bit_length.simps [simp del]

text \<open>The quotient \<open>m / 2 ^ k\<close> rounded to the nearest integer, ties to the even one.\<close>

definition round_half_even :: "nat \<Rightarrow> nat \<Rightarrow> nat" where
  "round_half_even m k =
     (let q = m div 2 ^ k; r = m mod 2 ^ k
      in if 2 ^ k < 2 * r \<or> (2 * r = 2 ^ k \<and> odd q) then q + 1 else q)"

text \<open>
  \<^verbatim>\<open>float(n)\<close> for an integer \<^verbatim>\<open>n\<close>: the magnitude is rounded half-to-even to 53
  significant bits; when the rounded magnitude needs more than 1024 bits (it is at least
  \<open>2 ^ 1024\<close>) CPython raises \<^verbatim>\<open>OverflowError\<close>.
\<close>

definition int_to_float :: "int \<Rightarrow> error + pyfloat" where
  "int_to_float n =
     (if n = 0 then Inr (Float False 0 0)
      else
        let m = nat \<bar>n\<bar>;
            b = bit_length m;
            q = (if b \<le> 53 then m * 2 ^ (53 - b) else round_half_even m (b - 53));
            q' = (if q = 2 ^ 53 then 2 ^ 52 else q);
            b' = (if q = 2 ^ 53 then b + 1 else b)
        in if 1024 < b' then Inl (OverflowError ''int too large to convert to float'')
           else Inr (Float (n < 0) (of_nat (b' + 1022)) (of_nat (q' - 2 ^ 52))))"

text \<open>\<^verbatim>\<open>float(v)\<close>: a float is returned as it is, an integer is converted.\<close>

fun py_float :: "pynum \<Rightarrow> error + pyfloat" where
  "py_float (PyInt n) = int_to_float n"
| "py_float (PyFloat f) = Inr f"

text \<open>\<^verbatim>\<open>i % n\<close> on non-negative integers, and \<^verbatim>\<open>xs[i]\<close> for a non-negative index.\<close>

definition py_mod :: "nat \<Rightarrow> nat \<Rightarrow> error + nat" where
  "py_mod i n = (if n = 0 then Inl ZeroDivisionError else Inr (i mod n))"

definition py_getitem :: "'a list \<Rightarrow> nat \<Rightarrow> error + 'a" where
  "py_getitem xs i = (if i < length xs then Inr (xs ! i) else Inl IndexError)"

text \<open>A list comprehension \<^verbatim>\<open>[f(x) for x in xs]\<close> whose body can raise: the first
  exception ends it.\<close>

fun list_comp :: "('a \<Rightarrow> error + 'b) \<Rightarrow> 'a list \<Rightarrow> error + 'b list" where
  "list_comp f [] = Inr []"
| "list_comp f (x # xs) =
     (case f x of
        Inl e \<Rightarrow> Inl e
      | Inr y \<Rightarrow> (case list_comp f xs of Inl e \<Rightarrow> Inl e | Inr ys \<Rightarrow> Inr (y # ys)))"

section \<open>The figure\<close>

text \<open>
  What \<^verbatim>\<open>go.Figure(data=[go.Sankey(node=..., link=...)])\<close>, \<^verbatim>\<open>fig.update_layout(...)\<close> and
  the assignment to \<^verbatim>\<open>fig.data[0].link.color\<close> are given: a figure is the record of these
  arguments.
\<close>

record figure =
  node_pad :: nat
  node_thickness :: nat
  node_line_color :: string
  node_line_width :: pyfloat
  node_label :: "string list"
  node_color :: "string list"
  link_source :: "nat list"
  link_target :: "nat list"
  link_value :: "pyfloat list"
  link_color :: "string list option"
  title_text :: string
  font_size :: nat
  plot_bgcolor :: string
  paper_bgcolor :: string
  font_color :: string

section \<open>concept\_prediction\_sankey\<close>

text \<open>The inner loop \<^verbatim>\<open>for j, v in enumerate(row)\<close>, from column \<open>j\<close> on; \<open>n\<close> is
  \<^verbatim>\<open>len(concepts)\<close>, and the state is the three lists \<^verbatim>\<open>source\<close>, \<^verbatim>\<open>target\<close>, \<^verbatim>\<open>value\<close>.\<close>

fun cells_loop ::
  "nat \<Rightarrow> nat \<Rightarrow> nat \<Rightarrow> pynum list \<Rightarrow> nat list \<times> nat list \<times> pyfloat list
     \<Rightarrow> error + (nat list \<times> nat list \<times> pyfloat list)" where
  "cells_loop n i j [] acc = Inr acc"
| "cells_loop n i j (v # row) (source, target, vals) =
     (if py_eq_zero v then cells_loop n i (Suc j) row (source, target, vals)
      else
        (case py_float v of
           Inl e \<Rightarrow> Inl e
         | Inr f \<Rightarrow> cells_loop n i (Suc j) row (source @ [i], target @ [n + j], vals @ [f])))"

text \<open>The outer loop \<^verbatim>\<open>for i, row in enumerate(flows)\<close>, from row \<open>i\<close> on; \<open>p\<close> is
  \<^verbatim>\<open>len(predictions)\<close>.\<close>

fun rows_loop ::
  "nat \<Rightarrow> nat \<Rightarrow> nat \<Rightarrow> pynum list list \<Rightarrow> nat list \<times> nat list \<times> pyfloat list
     \<Rightarrow> error + (nat list \<times> nat list \<times> pyfloat list)" where
  "rows_loop n p i [] acc = Inr acc"
| "rows_loop n p i (row # flows) acc =
     (if length row \<noteq> p
      then Inl (ValueError ''each flow row must match number of predictions'')
      else
        (case cells_loop n i 0 row acc of
           Inl e \<Rightarrow> Inl e
         | Inr acc' \<Rightarrow> rows_loop n p (Suc i) flows acc'))"

definition default_palette :: "string list" where
  "default_palette = [''#4c78a8'', ''#72b7b2'', ''#f58518'', ''#e45756'', ''#54a24b'']"

text \<open>
  Lines 307 to 313. \<open>colorway\<close> is what \<^verbatim>\<open>go.Figure().layout.template.layout.colorway\<close>
  evaluates to: the colorway of the charting library's current default template, \<open>None\<close>
  when the template has none. \<^verbatim>\<open>colorway or []\<close> is \<^verbatim>\<open>[]\<close> for \<open>None\<close> and for an empty
  colorway.
\<close>

definition template_or_given :: "string list option \<Rightarrow> string list option \<Rightarrow> string list" where
  "template_or_given colorway concept_colors =
     (case concept_colors of
        None \<Rightarrow> (case colorway of None \<Rightarrow> [] | Some cw \<Rightarrow> if cw = [] then [] else cw)
      | Some cs \<Rightarrow> cs)"

definition resolve_palette :: "string list option \<Rightarrow> string list option \<Rightarrow> string list" where
  "resolve_palette colorway concept_colors =
     (let cs = template_or_given colorway concept_colors
      in if cs = [] then default_palette else cs)"

text \<open>
  The charting library is not part of the repository. Of it the model keeps what the
  builder's result depends on: the library checks every element of a colour array with its
  colour validator and raises its \<^verbatim>\<open>ValueError\<close> when an element fails. The validator is
  the parameter \<open>valid_color\<close> of the model. The other values the builder hands over are
  label strings, lists of numbers and the fixed settings of lines 324 to 339 (among them the
  colours \<^verbatim>\<open>"black"\<close> and \<^verbatim>\<open>"white"\<close>), which the library takes as they are.
\<close>

definition validate_colors :: "(string \<Rightarrow> bool) \<Rightarrow> string \<Rightarrow> string list \<Rightarrow> error + string list" where
  "validate_colors valid_color property cs =
     (if list_all valid_color cs then Inr cs else Inl (PlotlyValueError property))"

text \<open>The figure that holds the given arrays and the fixed settings of lines 324 to 339.
  The line width 0.5 is the float with exponent field 1022 and fraction 0.\<close>

definition figure_of ::
  "string list \<Rightarrow> string list \<Rightarrow> nat list \<Rightarrow> nat list \<Rightarrow> pyfloat list \<Rightarrow> string list option
     \<Rightarrow> figure" where
  "figure_of labels node_colors source target vals link_colors =
     \<lparr>node_pad = 18, node_thickness = 18,
      node_line_color = ''black'', node_line_width = Float False 1022 0,
      node_label = labels, node_color = node_colors,
      link_source = source, link_target = target, link_value = vals,
      link_color = link_colors,
      title_text = ''Concept -> Predictions'', font_size = 11,
      plot_bgcolor = ''white'', paper_bgcolor = ''white'', font_color = ''black''\<rparr>"

text \<open>
  Lines 320 to 341: \<^verbatim>\<open>go.Figure(data=[go.Sankey(node=dict(..., color=node_colors),
  link=dict(source=source, target=target, value=value))])\<close>, where the library validates the
  node colours; then \<^verbatim>\<open>fig.update_layout(...)\<close>; then
  \<^verbatim>\<open>fig.data[0].link.color = link_colors\<close>, where it validates the link colours.
\<close>

definition sankey_figure ::
  "(string \<Rightarrow> bool) \<Rightarrow> string list \<Rightarrow> string list \<Rightarrow> nat list \<Rightarrow> nat list \<Rightarrow> pyfloat list
     \<Rightarrow> string list \<Rightarrow> error + figure" where
  "sankey_figure valid_color labels node_colors source target vals link_colors =
     (case validate_colors valid_color ''sankey.node.color'' node_colors of
        Inl e \<Rightarrow> Inl e
      | Inr ncs \<Rightarrow>
          let fig = figure_of labels ncs source target vals None in
          (case validate_colors valid_color ''sankey.link.color'' link_colors of
             Inl e \<Rightarrow> Inl e
           | Inr lcs \<Rightarrow> Inr (fig\<lparr>link_color := Some lcs\<rparr>)))"

text \<open>
  The builder. Besides its five arguments it has the two things it takes from the charting
  library: the colour validator and the colorway of the current default template.
\<close>

definition concept_prediction_sankey ::
  "(string \<Rightarrow> bool) \<Rightarrow> string list option \<Rightarrow> string list \<Rightarrow> string list \<Rightarrow> pynum list list
     \<Rightarrow> string list option \<Rightarrow> string \<Rightarrow> error + figure" where
  "concept_prediction_sankey valid_color colorway concepts predictions flows concept_colors
       prediction_color =
     (if length flows \<noteq> length concepts
      then Inl (ValueError ''flows rows must match number of concepts'')
      else
        let labels = concepts @ predictions in
        (case rows_loop (length concepts) (length predictions) 0 flows ([], [], []) of
           Inl e \<Rightarrow> Inl e
         | Inr (source, target, vals) \<Rightarrow>
             let palette = resolve_palette colorway concept_colors in
             (case list_comp
                     (\<lambda>i. case py_mod i (length palette) of
                             Inl e \<Rightarrow> Inl e
                           | Inr k \<Rightarrow> py_getitem palette k)
                     [0..<length concepts] of
                Inl e \<Rightarrow> Inl e
              | Inr concept_color_list \<Rightarrow>
                  let node_colors =
                        concept_color_list @ replicate (length predictions) prediction_color
                  in
                  (case list_comp (py_getitem concept_color_list) source of
                     Inl e \<Rightarrow> Inl e
                   | Inr link_colors \<Rightarrow>
                       sankey_figure valid_color labels node_colors source target vals
                         link_colors))))"

section \<open>The specification's reading of the builder\<close>

text \<open>
  The links the specification describes, written as it words them: the cells are visited
  in row-major order, and a cell that is not zero, at row \<open>i\<close> and column \<open>j\<close>, gives the
  link from \<open>i\<close> to \<open>n + j\<close> that carries the cell (\<open>n\<close> is the number of source
  categories). \<open>row_links\<close> numbers the columns of one row from \<open>j\<close>, \<open>matrix_links\<close>
  the rows from \<open>i\<close>.
\<close>

definition row_links :: "nat \<Rightarrow> nat \<Rightarrow> nat \<Rightarrow> pynum list \<Rightarrow> (nat \<times> nat \<times> pynum) list" where
  "row_links n i j row =
     map (\<lambda>(j, v). (i, n + j, v)) (filter (\<lambda>(j, v). \<not> py_eq_zero v) (enumerate j row))"

definition matrix_links :: "nat \<Rightarrow> nat \<Rightarrow> pynum list list \<Rightarrow> (nat \<times> nat \<times> pynum) list" where
  "matrix_links n i flows = concat (map (\<lambda>(i, row). row_links n i 0 row) (enumerate i flows))"

text \<open>The number of cells of the matrix that are not zero.\<close>

definition nonzero_cells :: "pynum list list \<Rightarrow> nat" where
  "nonzero_cells flows = length (filter (\<lambda>v. \<not> py_eq_zero v) (concat flows))"

text \<open>The shape the specification asks of a flow matrix: as many rows as source
  categories, every row as long as the list of target categories.\<close>

definition shape_ok :: "string list \<Rightarrow> string list \<Rightarrow> pynum list list \<Rightarrow> bool" where
  "shape_ok concepts predictions flows \<longleftrightarrow>
     length flows = length concepts \<and> list_all (\<lambda>row. length row = length predictions) flows"

text \<open>A cell that \<^verbatim>\<open>float\<close> converts: every float, and every integer whose rounded
  magnitude is below \<open>2 ^ 1024\<close>.\<close>

definition float_ok :: "pynum \<Rightarrow> bool" where
  "float_ok v = (case py_float v of Inl e \<Rightarrow> False | Inr f \<Rightarrow> True)"

text \<open>The links a figure holds, in order: source index, target index and magnitude, read
  off its three parallel arrays.\<close>

definition links :: "figure \<Rightarrow> (nat \<times> nat \<times> pyfloat) list" where
  "links d = zip (link_source d) (zip (link_target d) (link_value d))"

text \<open>A cell below zero (\<^verbatim>\<open>v < 0\<close>): a negative integer, or a float with the sign bit set
  that is neither a zero nor a NaN.\<close>

fun negative_cell :: "pynum \<Rightarrow> bool" where
  "negative_cell (PyInt n) = (n < 0)"
| "negative_cell (PyFloat f) =
     (fsign f \<and> \<not> (fexp f = 0 \<and> ffrac f = 0) \<and> \<not> (fexp f = 2047 \<and> ffrac f \<noteq> 0))"

text \<open>Row-major order on links: an earlier row first, and within a row an earlier
  column first.\<close>

definition row_major_before :: "nat \<times> nat \<times> 'a \<Rightarrow> nat \<times> nat \<times> 'a \<Rightarrow> bool" where
  "row_major_before a b \<longleftrightarrow> fst a < fst b \<or> (fst a = fst b \<and> fst (snd a) < fst (snd b))"

text \<open>The colours the specification gives the nodes: source category \<open>i\<close> the palette's
  colour at \<open>i\<close> modulo the palette's length, every target category the prediction colour.\<close>

definition assigned_colors ::
  "string list option \<Rightarrow> string list \<Rightarrow> string list \<Rightarrow> string list option \<Rightarrow> string
     \<Rightarrow> string list" where
  "assigned_colors colorway concepts predictions concept_colors prediction_color =
     map (\<lambda>i. resolve_palette colorway concept_colors !
                (i mod length (resolve_palette colorway concept_colors)))
         [0..<length concepts]
     @ replicate (length predictions) prediction_color"

text \<open>
  A validator for the examples. It takes a string for a colour when the string is \<^verbatim>\<open>#\<close> and
  six hexadecimal digits. On the strings of the examples it answers as the charting library
  does: the library takes every string of that form for a colour, and it refuses
  \<^verbatim>\<open>notacolor\<close> and \<^verbatim>\<open>teal-ish\<close>.
\<close>

definition hex_color :: "string \<Rightarrow> bool" where
  "hex_color s =
     (case s of
        [] \<Rightarrow> False
      | c # cs \<Rightarrow>
          c = CHR ''#'' \<and> length cs = 6 \<and>
          list_all (\<lambda>d. d \<in> set ''0123456789abcdefABCDEF'') cs)"

section \<open>Conversion of integers to floats\<close>

lemma bit_length_upper: "m < 2 ^ bit_length m"
proof (induction m rule: bit_length.induct)
  case (1 n)
  show ?case
  proof (cases "n = 0")
    case True
    then show ?thesis by (simp add: bit_length.simps)
  next
    case False
    then have "n div 2 < 2 ^ bit_length (n div 2)" using 1 by simp
    then have "n < 2 * 2 ^ bit_length (n div 2)" by linarith
    then show ?thesis using False by (subst bit_length.simps) simp
  qed
qed

lemma bit_length_lower: "m \<noteq> 0 \<Longrightarrow> 2 ^ (bit_length m - 1) \<le> m"
proof (induction m rule: bit_length.induct)
  case (1 n)
  show ?case
  proof (cases "n div 2 = 0")
    case True
    then have "bit_length n = 1" using 1(2)
      by (subst bit_length.simps) (simp add: bit_length.simps)
    then show ?thesis using 1(2) by simp
  next
    case False
    then have ih: "2 ^ (bit_length (n div 2) - 1) \<le> n div 2" using 1 by simp
    have pos: "0 < bit_length (n div 2)" using False by (subst bit_length.simps) simp
    have "bit_length n = Suc (bit_length (n div 2))" using 1(2) by (subst bit_length.simps) simp
    then have "2 ^ (bit_length n - 1) = 2 * 2 ^ (bit_length (n div 2) - 1)"
      using pos by (cases "bit_length (n div 2)") auto
    also have "\<dots> \<le> 2 * (n div 2)" using ih by simp
    also have "\<dots> \<le> n" by simp
    finally show ?thesis .
  qed
qed

lemma bit_length_gt: "2 ^ k \<le> m \<Longrightarrow> k < bit_length m"
proof -
  assume "2 ^ k \<le> m"
  then have "(2::nat) ^ k < 2 ^ bit_length m" using bit_length_upper [of m] by linarith
  then show ?thesis by simp
qed

lemma int_to_float_overflow:
  assumes "2 ^ 1024 \<le> \<bar>n\<bar>"
  shows "int_to_float n = Inl (OverflowError ''int too large to convert to float'')"
proof -
  have n0: "n \<noteq> 0" using assms by auto
  have "(2::nat) ^ 1024 \<le> nat \<bar>n\<bar>" using assms by (simp add: le_nat_iff)
  then have "1024 < bit_length (nat \<bar>n\<bar>)" by (rule bit_length_gt)
  then show ?thesis using n0 by (simp add: int_to_float_def Let_def)
qed

lemma round_carry:
  fixes m K Q :: nat
  assumes K: "0 < K" and m: "m < Q * (2 * K)" and Q: "0 < Q" "even Q"
  shows "(if 2 * K < 2 * (m mod (2 * K)) \<or> (2 * (m mod (2 * K)) = 2 * K \<and> odd (m div (2 * K)))
          then m div (2 * K) + 1 else m div (2 * K)) = Q
         \<longleftrightarrow> Q * (2 * K) \<le> m + K"
proof -
  define q r where "q = m div (2 * K)" and "r = m mod (2 * K)"
  have m_eq: "m = q * (2 * K) + r"
    unfolding q_def r_def by (rule div_mult_mod_eq [symmetric])
  have r: "r < 2 * K"
    using K by (simp add: r_def)
  have q_lt: "q < Q"
  proof (rule ccontr)
    assume "\<not> q < Q"
    then have "Q * (2 * K) \<le> q * (2 * K)" by (simp add: mult_le_mono1)
    then show False using m m_eq by linarith
  qed
  show ?thesis
  proof (cases "Suc q = Q")
    case True
    then have odd_q: "odd q" using Q(2) by auto
    have "Q * (2 * K) = q * (2 * K) + 2 * K" using True [symmetric] by simp
    then have rhs: "Q * (2 * K) \<le> m + K \<longleftrightarrow> K \<le> r" using m_eq by linarith
    have "(2 * K < 2 * r \<or> (2 * r = 2 * K \<and> odd q)) \<longleftrightarrow> K \<le> r" using odd_q by auto
    then show ?thesis using True rhs unfolding q_def [symmetric] r_def [symmetric] by auto
  next
    case False
    then have "Suc (Suc q) \<le> Q" using q_lt by linarith
    then have "Suc (Suc q) * (2 * K) \<le> Q * (2 * K)" by (rule mult_le_mono1)
    then have "q * (2 * K) + 2 * K + 2 * K \<le> Q * (2 * K)" by simp
    then have "\<not> Q * (2 * K) \<le> m + K" using m_eq r K by linarith
    moreover have "q \<noteq> Q" "q + 1 \<noteq> Q" using False q_lt by auto
    ultimately show ?thesis unfolding q_def [symmetric] r_def [symmetric] by auto
  qed
qed

lemma round_half_even_carry:
  assumes "m < 2 ^ 1024"
  shows "round_half_even m 971 = 2 ^ 53 \<longleftrightarrow> 2 ^ 1024 \<le> m + 2 ^ 970"
proof -
  have e1: "(2::nat) ^ 971 = 2 * 2 ^ 970" by simp
  have e2: "(2::nat) ^ 1024 = 2 ^ 53 * (2 * 2 ^ 970)"
    by (simp add: power_add [symmetric] flip: power_Suc)
  have m: "m < 2 ^ 53 * (2 * 2 ^ 970)" using assms unfolding e2 .
  show ?thesis
    unfolding round_half_even_def Let_def e1 e2
    by (rule round_carry [OF _ m]) simp_all
qed

lemma int_to_float_Inr_iff:
  "(\<exists>f. int_to_float n = Inr f) \<longleftrightarrow> \<bar>n\<bar> < 2 ^ 1024 - 2 ^ 970"
proof (cases "n = 0")
  case True
  then show ?thesis by (simp add: int_to_float_def)
next
  case n0: False
  define m where "m = nat \<bar>n\<bar>"
  define b where "b = bit_length m"
  have m0: "m \<noteq> 0" using n0 by (simp add: m_def)
  have up: "m < 2 ^ b" and lo: "2 ^ (b - 1) \<le> m"
    using bit_length_upper [of m] bit_length_lower [OF m0] by (simp_all add: b_def)
  have rhs: "\<bar>n\<bar> < 2 ^ 1024 - 2 ^ 970 \<longleftrightarrow> \<not> 2 ^ 1024 \<le> m + 2 ^ 970"
  proof -
    have "int m = \<bar>n\<bar>" by (simp add: m_def)
    then have "\<bar>n\<bar> < 2 ^ 1024 - 2 ^ 970 \<longleftrightarrow> int m + 2 ^ 970 < 2 ^ 1024" by linarith
    also have "\<dots> \<longleftrightarrow> int (m + 2 ^ 970) < int (2 ^ 1024)" by simp
    also have "\<dots> \<longleftrightarrow> m + 2 ^ 970 < 2 ^ 1024" by (rule of_nat_less_iff)
    finally show ?thesis by (simp add: not_le)
  qed
  have small: "(2::nat) ^ 970 < 2 ^ 1023" by simp
  have p1024: "(2::nat) ^ 1024 = 2 * 2 ^ 1023" by simp
  consider (le53) "b \<le> 53" | (mid) "53 < b" "b < 1024" | (top) "b = 1024" | (big) "1024 < b"
    by linarith
  then show ?thesis
  proof cases
    case le53
    have "m * 2 ^ (53 - b) < 2 ^ b * 2 ^ (53 - b)" using up by simp
    also have "\<dots> = 2 ^ 53" using le53 by (simp add: power_add [symmetric])
    finally have q: "m * 2 ^ (53 - b) \<noteq> 2 ^ 53" by simp
    have "m < 2 ^ 53" using up le53
      by (meson less_le_trans one_le_numeral power_increasing)
    also have "(2::nat) ^ 53 \<le> 2 ^ 1023" by simp
    finally have "m < 2 ^ 1023" .
    then have "\<not> 2 ^ 1024 \<le> m + 2 ^ 970" using small p1024 by linarith
    then show ?thesis
      unfolding rhs using n0 le53 q
      by (simp add: int_to_float_def Let_def m_def [symmetric] b_def [symmetric])
  next
    case mid
    have "(2::nat) ^ b \<le> 2 ^ 1023" by (rule power_increasing) (use mid in simp_all)
    then have "m < 2 ^ 1023" using up by linarith
    then have "\<not> 2 ^ 1024 \<le> m + 2 ^ 970" using small p1024 by linarith
    then show ?thesis
      unfolding rhs using n0 mid
      by (simp add: int_to_float_def Let_def m_def [symmetric] b_def [symmetric])
  next
    case top
    have "m < 2 ^ 1024" using up top by simp
    then have "round_half_even m 971 = 2 ^ 53 \<longleftrightarrow> 2 ^ 1024 \<le> m + 2 ^ 970"
      by (rule round_half_even_carry)
    then show ?thesis
      unfolding rhs using n0 top
      by (simp add: int_to_float_def Let_def m_def [symmetric] b_def [symmetric])
  next
    case big
    have "(2::nat) ^ 1024 \<le> 2 ^ (b - 1)" by (rule power_increasing) (use big in simp_all)
    then have "2 ^ 1024 \<le> m + 2 ^ 970" using lo by linarith
    then show ?thesis
      unfolding rhs using n0 big
      by (simp add: int_to_float_def Let_def m_def [symmetric] b_def [symmetric])
  qed
qed

lemma int_to_float_Inl_iff:
  "int_to_float n = Inl (OverflowError ''int too large to convert to float'') \<longleftrightarrow>
     2 ^ 1024 - 2 ^ 970 \<le> \<bar>n\<bar>"
proof -
  have "int_to_float n = Inl e \<Longrightarrow> e = OverflowError ''int too large to convert to float''"
    for e
    by (auto simp: int_to_float_def Let_def split: if_splits)
  then have "int_to_float n = Inl (OverflowError ''int too large to convert to float'') \<longleftrightarrow>
      \<not> (\<exists>f. int_to_float n = Inr f)"
    by (cases "int_to_float n") auto
  then show ?thesis unfolding int_to_float_Inr_iff by linarith
qed

section \<open>The loops\<close>

lemma list_comp_Inr_iff: "list_comp f xs = Inr ys \<longleftrightarrow> map f xs = map Inr ys"
proof (induction xs arbitrary: ys)
  case Nil
  show ?case by auto
next
  case (Cons x xs)
  show ?case
  proof (cases "f x")
    case (Inl e)
    then show ?thesis by (cases ys) auto
  next
    case (Inr y)
    then show ?thesis using Cons.IH
      by (cases ys; cases "list_comp f xs") auto
  qed
qed

lemma row_links_Nil: "row_links n i j [] = []"
  by (simp add: row_links_def)

lemma row_links_Cons:
  "row_links n i j (v # row) =
     (if py_eq_zero v then row_links n i (Suc j) row
      else (i, n + j, v) # row_links n i (Suc j) row)"
  by (simp add: row_links_def)

lemma matrix_links_Nil: "matrix_links n i [] = []"
  by (simp add: matrix_links_def)

lemma matrix_links_Cons:
  "matrix_links n i (row # flows) = row_links n i 0 row @ matrix_links n (Suc i) flows"
  by (simp add: matrix_links_def)

lemma cells_loop_Inr_iff:
  "cells_loop n i j row (s, t, w) = Inr (s', t', w') \<longleftrightarrow>
     (\<exists>fs. map (\<lambda>l. py_float (snd (snd l))) (row_links n i j row) = map Inr fs \<and>
           s' = s @ map fst (row_links n i j row) \<and>
           t' = t @ map (\<lambda>l. fst (snd l)) (row_links n i j row) \<and>
           w' = w @ fs)"
proof (induction row arbitrary: j s t w)
  case Nil
  show ?case by (auto simp: row_links_Nil)
next
  case (Cons v row)
  show ?case
  proof (cases "py_eq_zero v")
    case True
    then show ?thesis using Cons.IH [of "Suc j" s t w] by (simp add: row_links_Cons)
  next
    case False
    show ?thesis
    proof (cases "py_float v")
      case (Inl e)
      then show ?thesis using False by (auto simp: row_links_Cons map_eq_Cons_conv)
    next
      case (Inr f)
      then show ?thesis using False Cons.IH [of "Suc j" "s @ [i]" "t @ [n + j]" "w @ [f]"]
        by (auto simp: row_links_Cons Cons_eq_map_conv)
    qed
  qed
qed

lemma map_Inr_append_iff:
  "map g A @ map g B = map Inr fs \<longleftrightarrow>
     (\<exists>fa fb. fs = fa @ fb \<and> map g A = map Inr fa \<and> map g B = map Inr fb)"
  by (auto simp: append_eq_map_conv)

lemma rows_loop_Cons_iff:
  "rows_loop n p i (row # flows) acc = Inr r \<longleftrightarrow>
     length row = p \<and>
     (\<exists>acc'. cells_loop n i 0 row acc = Inr acc' \<and> rows_loop n p (Suc i) flows acc' = Inr r)"
  by (auto split: sum.splits)

lemma rows_loop_Inr_iff:
  "rows_loop n p i flows (s, t, w) = Inr (s', t', w') \<longleftrightarrow>
     list_all (\<lambda>row. length row = p) flows \<and>
     (\<exists>fs. map (\<lambda>l. py_float (snd (snd l))) (matrix_links n i flows) = map Inr fs \<and>
           s' = s @ map fst (matrix_links n i flows) \<and>
           t' = t @ map (\<lambda>l. fst (snd l)) (matrix_links n i flows) \<and>
           w' = w @ fs)"
proof (induction flows arbitrary: i s t w)
  case Nil
  show ?case by (auto simp: matrix_links_Nil)
next
  case (Cons row flows)
  let ?R = "row_links n i 0 row"
  let ?M = "matrix_links n (Suc i) flows"
  let ?g = "\<lambda>l. py_float (snd (snd l))"
  show ?case
  proof
    assume "rows_loop n p i (row # flows) (s, t, w) = Inr (s', t', w')"
    then obtain acc' where len: "length row = p"
      and c: "cells_loop n i 0 row (s, t, w) = Inr acc'"
      and r: "rows_loop n p (Suc i) flows acc' = Inr (s', t', w')"
      unfolding rows_loop_Cons_iff by blast
    obtain s1 t1 w1 where acc': "acc' = (s1, t1, w1)" by (cases acc') auto
    from c obtain fa where fa: "map ?g ?R = map Inr fa"
      and s1: "s1 = s @ map fst ?R" and t1: "t1 = t @ map (\<lambda>l. fst (snd l)) ?R"
      and w1: "w1 = w @ fa"
      unfolding acc' cells_loop_Inr_iff by blast
    from r obtain fb where all: "list_all (\<lambda>row. length row = p) flows"
      and fb: "map ?g ?M = map Inr fb"
      and s': "s' = s1 @ map fst ?M" and t': "t' = t1 @ map (\<lambda>l. fst (snd l)) ?M"
      and w': "w' = w1 @ fb"
      unfolding acc' Cons.IH by blast
    have "map ?g (matrix_links n i (row # flows)) = map Inr (fa @ fb)"
      by (simp add: matrix_links_Cons fa fb)
    moreover have "s' = s @ map fst (matrix_links n i (row # flows))"
      by (simp add: matrix_links_Cons s' s1)
    moreover have "t' = t @ map (\<lambda>l. fst (snd l)) (matrix_links n i (row # flows))"
      by (simp add: matrix_links_Cons t' t1)
    moreover have "w' = w @ fa @ fb"
      by (simp add: w' w1)
    ultimately show "list_all (\<lambda>row. length row = p) (row # flows) \<and>
        (\<exists>fs. map ?g (matrix_links n i (row # flows)) = map Inr fs \<and>
              s' = s @ map fst (matrix_links n i (row # flows)) \<and>
              t' = t @ map (\<lambda>l. fst (snd l)) (matrix_links n i (row # flows)) \<and>
              w' = w @ fs)"
      using len all by auto
  next
    assume "list_all (\<lambda>row. length row = p) (row # flows) \<and>
        (\<exists>fs. map ?g (matrix_links n i (row # flows)) = map Inr fs \<and>
              s' = s @ map fst (matrix_links n i (row # flows)) \<and>
              t' = t @ map (\<lambda>l. fst (snd l)) (matrix_links n i (row # flows)) \<and>
              w' = w @ fs)"
    then obtain fs where len: "length row = p"
      and all: "list_all (\<lambda>row. length row = p) flows"
      and fs: "map ?g ?R @ map ?g ?M = map Inr fs"
      and s': "s' = s @ map fst ?R @ map fst ?M"
      and t': "t' = t @ map (\<lambda>l. fst (snd l)) ?R @ map (\<lambda>l. fst (snd l)) ?M"
      and w': "w' = w @ fs"
      by (auto simp: matrix_links_Cons)
    from fs obtain fa fb where split: "fs = fa @ fb"
      and fa: "map ?g ?R = map Inr fa" and fb: "map ?g ?M = map Inr fb"
      unfolding map_Inr_append_iff by blast
    have c: "cells_loop n i 0 row (s, t, w) =
        Inr (s @ map fst ?R, t @ map (\<lambda>l. fst (snd l)) ?R, w @ fa)"
      unfolding cells_loop_Inr_iff using fa by blast
    have r: "rows_loop n p (Suc i) flows
          (s @ map fst ?R, t @ map (\<lambda>l. fst (snd l)) ?R, w @ fa) = Inr (s', t', w')"
      unfolding Cons.IH using all fb s' t' w' split by auto
    show "rows_loop n p i (row # flows) (s, t, w) = Inr (s', t', w')"
      unfolding rows_loop_Cons_iff using len c r by blast
  qed
qed

section \<open>The builder's result\<close>

lemma resolve_palette_nonempty: "resolve_palette cw cc \<noteq> []"
  by (simp add: resolve_palette_def default_palette_def Let_def)

lemma concept_color_list_eq:
  "P \<noteq> [] \<Longrightarrow>
     list_comp (\<lambda>i. case py_mod i (length P) of Inl e \<Rightarrow> Inl e | Inr k \<Rightarrow> py_getitem P k) xs =
       Inr (map (\<lambda>i. P ! (i mod length P)) xs)"
  by (simp add: list_comp_Inr_iff py_mod_def py_getitem_def)

lemma link_colors_eq:
  "\<forall>i\<in>set src. i < length ccl \<Longrightarrow>
     list_comp (py_getitem ccl) src = Inr (map (\<lambda>i. ccl ! i) src)"
  by (simp add: list_comp_Inr_iff py_getitem_def)

lemma row_links_fst: "l \<in> set (row_links n i j row) \<Longrightarrow> fst l = i"
  by (auto simp: row_links_def)

lemma row_links_target:
  "l \<in> set (row_links n i j row) \<Longrightarrow> n + j \<le> fst (snd l) \<and> fst (snd l) < n + j + length row"
  by (auto simp: row_links_def in_set_enumerate_eq)

lemma matrix_links_fst:
  "l \<in> set (matrix_links n i flows) \<Longrightarrow> i \<le> fst l \<and> fst l < i + length flows"
proof (induction flows arbitrary: i)
  case Nil
  then show ?case by (simp add: matrix_links_Nil)
next
  case (Cons row flows)
  then show ?case
    by (fastforce simp: matrix_links_Cons dest: row_links_fst)
qed

lemma matrix_links_target:
  "l \<in> set (matrix_links n i flows) \<Longrightarrow> list_all (\<lambda>row. length row = p) flows \<Longrightarrow>
     n \<le> fst (snd l) \<and> fst (snd l) < n + p"
proof (induction flows arbitrary: i)
  case Nil
  then show ?case by (simp add: matrix_links_Nil)
next
  case (Cons row flows)
  then show ?case
    by (fastforce simp: matrix_links_Cons dest: row_links_target)
qed

lemma row_links_cells:
  "map (\<lambda>l. snd (snd l)) (row_links n i j row) = filter (\<lambda>v. \<not> py_eq_zero v) row"
  by (induction row arbitrary: j) (simp_all add: row_links_Nil row_links_Cons)

lemma matrix_links_cells:
  "map (\<lambda>l. snd (snd l)) (matrix_links n i flows) = filter (\<lambda>v. \<not> py_eq_zero v) (concat flows)"
  by (induction flows arbitrary: i) (simp_all add: matrix_links_Nil matrix_links_Cons row_links_cells)

lemma length_matrix_links: "length (matrix_links n i flows) = nonzero_cells flows"
  using arg_cong [OF matrix_links_cells [of n i flows], of length]
  by (simp add: nonzero_cells_def)

lemma py_float_Inl: "py_float v = Inl e \<Longrightarrow> e = OverflowError ''int too large to convert to float''"
  by (cases v) (auto simp: int_to_float_def Let_def split: if_splits)

lemma py_float_zero: "py_eq_zero v \<Longrightarrow> float_ok v"
  by (cases v) (auto simp: float_ok_def int_to_float_def)

lemma float_ok_iff: "float_ok v \<longleftrightarrow> (\<exists>f. py_float v = Inr f)"
  by (auto simp: float_ok_def split: sum.splits)

lemma map_py_float_Inr_iff:
  "(\<exists>fs. map (\<lambda>l. py_float (g l)) L = map Inr fs) \<longleftrightarrow> (\<forall>l\<in>set L. float_ok (g l))"
proof (induction L)
  case Nil
  show ?case by simp
next
  case (Cons l L)
  show ?case
    using Cons.IH by (auto simp: float_ok_iff map_eq_Cons_conv Cons_eq_map_conv)
qed

lemma matrix_links_float_ok:
  "(\<forall>l\<in>set (matrix_links n i flows). float_ok (snd (snd l))) \<longleftrightarrow>
     list_all (list_all float_ok) flows"
proof -
  have "(\<forall>l\<in>set (matrix_links n i flows). float_ok (snd (snd l))) \<longleftrightarrow>
      (\<forall>v\<in>set (map (\<lambda>l. snd (snd l)) (matrix_links n i flows)). float_ok v)"
    by simp
  also have "\<dots> \<longleftrightarrow> (\<forall>v\<in>set (concat flows). \<not> py_eq_zero v \<longrightarrow> float_ok v)"
    unfolding matrix_links_cells by auto
  also have "\<dots> \<longleftrightarrow> (\<forall>v\<in>set (concat flows). float_ok v)"
    using py_float_zero by blast
  also have "\<dots> \<longleftrightarrow> list_all (list_all float_ok) flows"
    by (auto simp: list_all_iff)
  finally show ?thesis .
qed

lemma cells_loop_Inl:
  "cells_loop n i j row acc = Inl e \<Longrightarrow> e = OverflowError ''int too large to convert to float''"
proof (induction n i j row acc rule: cells_loop.induct)
  case (1 n i j acc)
  then show ?case by simp
next
  case (2 n i j v row source target vals)
  then show ?case
    by (auto split: if_splits sum.splits dest: py_float_Inl)
qed

lemma rows_loop_Inl:
  "rows_loop n p i flows acc = Inl e \<Longrightarrow>
     e = ValueError ''each flow row must match number of predictions'' \<or>
     e = OverflowError ''int too large to convert to float''"
proof (induction flows arbitrary: i acc)
  case Nil
  then show ?case by simp
next
  case (Cons row flows)
  then show ?case
    by (auto split: if_splits sum.splits dest: cells_loop_Inl)
qed

lemma sankey_figure_eq:
  "sankey_figure vc labels ncs s t w lcs =
     (if list_all vc ncs
      then (if list_all vc lcs then Inr (figure_of labels ncs s t w (Some lcs))
            else Inl (PlotlyValueError ''sankey.link.color''))
      else Inl (PlotlyValueError ''sankey.node.color''))"
  by (simp add: sankey_figure_def validate_colors_def figure_of_def Let_def)

text \<open>The colour computations of lines 314 to 318 never raise: the palette is not empty and
  every source index is a row index. And the link colours pass the library's check when the
  node colours did, each link colour being the colour of a source node.\<close>

lemma concept_prediction_sankey_unfold:
  "concept_prediction_sankey vc cw c p fl cc pc =
     (if length fl \<noteq> length c
      then Inl (ValueError ''flows rows must match number of concepts'')
      else
        (case rows_loop (length c) (length p) 0 fl ([], [], []) of
           Inl e \<Rightarrow> Inl e
         | Inr (s, t, w) \<Rightarrow>
             if list_all vc (assigned_colors cw c p cc pc)
             then Inr (figure_of (c @ p) (assigned_colors cw c p cc pc) s t w
                    (Some (map (\<lambda>i. resolve_palette cw cc !
                                   (i mod length (resolve_palette cw cc))) s)))
             else Inl (PlotlyValueError ''sankey.node.color'')))"
proof (cases "length fl = length c")
  case False
  then show ?thesis by (simp add: concept_prediction_sankey_def)
next
  case len: True
  let ?P = "resolve_palette cw cc"
  let ?ccl = "map (\<lambda>i. ?P ! (i mod length ?P)) [0..<length c]"
  have ccl: "list_comp (\<lambda>i. case py_mod i (length ?P) of Inl e \<Rightarrow> Inl e | Inr k \<Rightarrow> py_getitem ?P k)
      [0..<length c] = Inr ?ccl"
    by (rule concept_color_list_eq [OF resolve_palette_nonempty])
  have nodes: "?ccl @ replicate (length p) pc = assigned_colors cw c p cc pc"
    by (simp add: assigned_colors_def)
  show ?thesis
  proof (cases "rows_loop (length c) (length p) 0 fl ([], [], [])")
    case (Inl e)
    then show ?thesis using len by (simp add: concept_prediction_sankey_def)
  next
    case (Inr acc)
    obtain s t w where acc: "acc = (s, t, w)" by (cases acc) auto
    from Inr have s: "s = map fst (matrix_links (length c) 0 fl)"
      unfolding acc rows_loop_Inr_iff by auto
    have bound: "\<forall>i\<in>set s. i < length ?ccl"
      unfolding s using matrix_links_fst [of _ "length c" 0 fl] len by auto
    have lc: "list_comp (py_getitem ?ccl) s = Inr (map (\<lambda>i. ?ccl ! i) s)"
      by (rule link_colors_eq [OF bound])
    have lc_eq: "map (\<lambda>i. ?ccl ! i) s = map (\<lambda>i. ?P ! (i mod length ?P)) s"
      using bound by (auto simp: nth_map)
    have links_ok: "list_all vc (map (\<lambda>i. ?P ! (i mod length ?P)) s)"
      if "list_all vc (assigned_colors cw c p cc pc)"
    proof -
      from that have "\<forall>i<length c. vc (?P ! (i mod length ?P))"
        by (simp add: assigned_colors_def list_all_iff)
      moreover have "i < length c" if "i \<in> set s" for i
        using bound that by simp
      ultimately show ?thesis by (simp add: list_all_iff)
    qed
    have "concept_prediction_sankey vc cw c p fl cc pc =
        sankey_figure vc (c @ p) (assigned_colors cw c p cc pc) s t w
          (map (\<lambda>i. ?P ! (i mod length ?P)) s)"
      using len Inr
      by (simp add: concept_prediction_sankey_def acc Let_def ccl lc [unfolded lc_eq] nodes)
    then show ?thesis
      using len Inr links_ok by (simp add: acc sankey_figure_eq)
  qed
qed

lemma concept_prediction_sankey_Inr_iff:
  "concept_prediction_sankey vc cw c p fl cc pc = Inr d \<longleftrightarrow>
     shape_ok c p fl \<and> list_all vc (assigned_colors cw c p cc pc) \<and>
     (\<exists>fs. map (\<lambda>l. py_float (snd (snd l))) (matrix_links (length c) 0 fl) = map Inr fs \<and>
        d = figure_of (c @ p) (assigned_colors cw c p cc pc)
              (map fst (matrix_links (length c) 0 fl))
              (map (\<lambda>l. fst (snd l)) (matrix_links (length c) 0 fl))
              fs
              (Some (map (\<lambda>i. resolve_palette cw cc ! (i mod length (resolve_palette cw cc)))
                       (map fst (matrix_links (length c) 0 fl)))))"
proof (cases "length fl = length c")
  case False
  then show ?thesis by (simp add: concept_prediction_sankey_unfold shape_ok_def)
next
  case len: True
  show ?thesis
  proof (cases "rows_loop (length c) (length p) 0 fl ([], [], [])")
    case (Inl e)
    have "\<not> (list_all (\<lambda>row. length row = length p) fl \<and>
        (\<exists>fs. map (\<lambda>l. py_float (snd (snd l))) (matrix_links (length c) 0 fl) = map Inr fs))"
      using Inl rows_loop_Inr_iff [of "length c" "length p" 0 fl "[]" "[]" "[]"]
      by auto
    then show ?thesis using Inl len
      by (auto simp: concept_prediction_sankey_unfold shape_ok_def)
  next
    case (Inr acc)
    obtain s t w where acc: "acc = (s, t, w)" by (cases acc) auto
    from Inr obtain "list_all (\<lambda>row. length row = length p) fl"
      and w: "map (\<lambda>l. py_float (snd (snd l))) (matrix_links (length c) 0 fl) = map Inr w"
      and s: "s = map fst (matrix_links (length c) 0 fl)"
      and t: "t = map (\<lambda>l. fst (snd l)) (matrix_links (length c) 0 fl)"
      unfolding acc rows_loop_Inr_iff by auto
    then have shape: "shape_ok c p fl" using len by (simp add: shape_ok_def)
    have uniq: "map (\<lambda>l. py_float (snd (snd l))) (matrix_links (length c) 0 fl) = map Inr fs
        \<longleftrightarrow> fs = w" for fs
      unfolding w by (auto simp: inj_map_eq_map)
    show ?thesis
      using len Inr shape
      by (auto simp: concept_prediction_sankey_unfold acc uniq s t)
  qed
qed

lemma concept_prediction_sankey_Inl:
  "concept_prediction_sankey vc cw c p fl cc pc = Inl e \<Longrightarrow>
     e = ValueError ''flows rows must match number of concepts'' \<or>
     e = ValueError ''each flow row must match number of predictions'' \<or>
     e = OverflowError ''int too large to convert to float'' \<or>
     e = PlotlyValueError ''sankey.node.color''"
  unfolding concept_prediction_sankey_unfold
  by (auto split: if_splits sum.splits dest: rows_loop_Inl)

lemma concept_prediction_sankey_returns_iff:
  "(\<exists>d. concept_prediction_sankey vc cw c p fl cc pc = Inr d) \<longleftrightarrow>
     shape_ok c p fl \<and> list_all (list_all float_ok) fl \<and>
     list_all vc (assigned_colors cw c p cc pc)"
  unfolding concept_prediction_sankey_Inr_iff
  using map_py_float_Inr_iff [of "\<lambda>l. snd (snd l)" "matrix_links (length c) 0 fl"]
    matrix_links_float_ok [of "length c" 0 fl]
  by auto

section \<open>Cells, links and concrete conversions\<close>

lemma bit_length_1: "bit_length (Suc 0) = 1"
  by (simp add: bit_length.simps)

lemma bit_length_2: "bit_length 2 = 2"
  by (simp add: bit_length.simps)

lemma int_to_float_1: "int_to_float 1 = Inr (Float False 1023 0)"
  by (simp add: int_to_float_def Let_def bit_length_1)

lemma int_to_float_2: "int_to_float 2 = Inr (Float False 1024 0)"
  by (simp add: int_to_float_def Let_def bit_length_2)

lemma float_ok_PyInt: "float_ok (PyInt n) \<longleftrightarrow> \<bar>n\<bar> < 2 ^ 1024 - 2 ^ 970"
  using int_to_float_Inr_iff [of n] by (simp add: float_ok_iff)

lemma float_ok_PyFloat: "float_ok (PyFloat f)"
  by (simp add: float_ok_def)

lemma negative_cell_float: "negative_cell v \<Longrightarrow> py_float v = Inr f \<Longrightarrow> fsign f"
  by (cases v) (auto simp: int_to_float_def Let_def split: if_splits)

lemma negative_cell_nonzero: "negative_cell v \<Longrightarrow> \<not> py_eq_zero v"
  by (cases v) auto

lemma row_links_set:
  "set (row_links n i j row) =
     {(i, n + j + k, row ! k) | k. k < length row \<and> \<not> py_eq_zero (row ! k)}"
proof -
  have "l \<in> set (row_links n i j row) \<longleftrightarrow>
      (\<exists>k. l = (i, n + j + k, row ! k) \<and> k < length row \<and> \<not> py_eq_zero (row ! k))" for l
  proof
    assume "l \<in> set (row_links n i j row)"
    then obtain c v where l: "l = (i, n + c, v)" and cv: "(c, v) \<in> set (enumerate j row)"
      and nz: "\<not> py_eq_zero v"
      by (auto simp: row_links_def)
    from cv have "j \<le> c" "c < length row + j" "row ! (c - j) = v"
      by (auto simp: in_set_enumerate_eq)
    then have "l = (i, n + j + (c - j), row ! (c - j)) \<and> c - j < length row \<and>
        \<not> py_eq_zero (row ! (c - j))"
      using l nz by auto
    then show "\<exists>k. l = (i, n + j + k, row ! k) \<and> k < length row \<and> \<not> py_eq_zero (row ! k)"
      by blast
  next
    assume "\<exists>k. l = (i, n + j + k, row ! k) \<and> k < length row \<and> \<not> py_eq_zero (row ! k)"
    then obtain k where l: "l = (i, n + j + k, row ! k)" and k: "k < length row"
      and nz: "\<not> py_eq_zero (row ! k)" by blast
    have "(j + k, row ! k) \<in> set (enumerate j row)"
      using k by (auto simp: in_set_enumerate_eq)
    then have "(i, n + (j + k), row ! k) \<in> set (row_links n i j row)"
      using nz by (force simp: row_links_def)
    then show "l \<in> set (row_links n i j row)" using l by (simp add: add.assoc)
  qed
  then show ?thesis by blast
qed

lemma matrix_links_set:
  "set (matrix_links n i flows) =
     {(i + r, n + k, flows ! r ! k) | r k.
        r < length flows \<and> k < length (flows ! r) \<and> \<not> py_eq_zero (flows ! r ! k)}"
proof (induction flows arbitrary: i)
  case Nil
  show ?case by (simp add: matrix_links_Nil)
next
  case (Cons row flows)
  have "set (matrix_links n i (row # flows)) =
      {(i, n + k, row ! k) | k. k < length row \<and> \<not> py_eq_zero (row ! k)} \<union>
      {(Suc i + r, n + k, flows ! r ! k) | r k.
         r < length flows \<and> k < length (flows ! r) \<and> \<not> py_eq_zero (flows ! r ! k)}"
    by (simp add: matrix_links_Cons row_links_set Cons.IH)
  also have "\<dots> =
      {(i + r, n + k, (row # flows) ! r ! k) | r k.
         r < length (row # flows) \<and> k < length ((row # flows) ! r) \<and>
         \<not> py_eq_zero ((row # flows) ! r ! k)}"
    (is "?A \<union> ?B = ?C")
  proof (intro set_eqI iffI)
    fix l assume "l \<in> ?A \<union> ?B"
    then show "l \<in> ?C"
    proof
      assume "l \<in> ?A"
      then obtain k where "l = (i, n + k, row ! k)" "k < length row" "\<not> py_eq_zero (row ! k)"
        by blast
      then have "l = (i + 0, n + k, (row # flows) ! 0 ! k) \<and> 0 < length (row # flows) \<and>
          k < length ((row # flows) ! 0) \<and> \<not> py_eq_zero ((row # flows) ! 0 ! k)"
        by simp
      then show ?thesis by blast
    next
      assume "l \<in> ?B"
      then obtain r k where "l = (Suc i + r, n + k, flows ! r ! k)" "r < length flows"
        "k < length (flows ! r)" "\<not> py_eq_zero (flows ! r ! k)"
        by blast
      then have "l = (i + Suc r, n + k, (row # flows) ! Suc r ! k) \<and>
          Suc r < length (row # flows) \<and> k < length ((row # flows) ! Suc r) \<and>
          \<not> py_eq_zero ((row # flows) ! Suc r ! k)"
        by simp
      then show ?thesis by blast
    qed
  next
    fix l assume "l \<in> ?C"
    then obtain r k where l: "l = (i + r, n + k, (row # flows) ! r ! k)"
      and r: "r < length (row # flows)" and k: "k < length ((row # flows) ! r)"
      and nz: "\<not> py_eq_zero ((row # flows) ! r ! k)"
      by blast
    show "l \<in> ?A \<union> ?B"
    proof (cases r)
      case 0
      then have "l \<in> ?A" using l k nz by simp
      then show ?thesis by blast
    next
      case (Suc r')
      then have "l = (Suc i + r', n + k, flows ! r' ! k) \<and> r' < length flows \<and>
          k < length (flows ! r') \<and> \<not> py_eq_zero (flows ! r' ! k)"
        using l r k nz by simp
      then have "l \<in> ?B" by blast
      then show ?thesis by blast
    qed
  qed
  finally show ?case .
qed

lemma cells_loop_float_ok:
  "list_all float_ok row \<Longrightarrow> \<exists>acc'. cells_loop n i j row (s, t, w) = Inr acc'"
proof (induction row arbitrary: j s t w)
  case Nil
  show ?case by simp
next
  case (Cons v row)
  from Cons.prems have v: "float_ok v" and rest: "list_all float_ok row"
    by simp_all
  from v obtain f where f: "py_float v = Inr f"
    unfolding float_ok_iff by blast
  show ?case
    using f Cons.IH [OF rest] by simp
qed

lemma rows_loop_first_bad:
  "list_all (\<lambda>row. length row = p) good \<Longrightarrow> list_all (list_all float_ok) good \<Longrightarrow>
   length bad \<noteq> p \<Longrightarrow>
     rows_loop n p i (good @ bad # rest) acc =
       Inl (ValueError ''each flow row must match number of predictions'')"
proof (induction good arbitrary: i acc)
  case Nil
  then show ?case by simp
next
  case (Cons row good)
  from Cons.prems obtain acc' where "cells_loop n i 0 row acc = Inr acc'"
    using cells_loop_float_ok [of row n i 0 "fst acc" "fst (snd acc)" "snd (snd acc)"] by auto
  then show ?case using Cons by simp
qed

lemma concept_prediction_sankey_fields:
  assumes "concept_prediction_sankey vc cw c p fl cc pc = Inr d"
  shows "shape_ok c p fl"
    and "node_label d = c @ p"
    and "node_color d =
           map (\<lambda>i. resolve_palette cw cc ! (i mod length (resolve_palette cw cc))) [0..<length c]
             @ replicate (length p) pc"
    and "link_source d = map fst (matrix_links (length c) 0 fl)"
    and "link_target d = map (\<lambda>l. fst (snd l)) (matrix_links (length c) 0 fl)"
    and "map Inr (link_value d) = map (\<lambda>l. py_float (snd (snd l))) (matrix_links (length c) 0 fl)"
    and "link_color d =
           Some (map (\<lambda>i. resolve_palette cw cc ! (i mod length (resolve_palette cw cc)))
                   (link_source d))"
    and "list_all vc (assigned_colors cw c p cc pc)"
  using assms unfolding concept_prediction_sankey_Inr_iff
  by (auto simp: figure_of_def assigned_colors_def)

section \<open>The links of a returned figure\<close>

lemma row_links_sorted:
  "sorted_wrt (\<lambda>a b. fst a = fst b \<and> fst (snd a) < fst (snd b)) (row_links n i j row)"
proof (induction row arbitrary: j)
  case Nil
  show ?case by (simp add: row_links_Nil)
next
  case (Cons v row)
  have later: "fst l = i \<and> n + j < fst (snd l)" if "l \<in> set (row_links n i (Suc j) row)" for l
    using row_links_target [OF that] row_links_fst [OF that] by simp
  show ?case
    using Cons.IH [of "Suc j"] later by (auto simp: row_links_Cons)
qed

lemma matrix_links_sorted: "sorted_wrt row_major_before (matrix_links n i flows)"
proof (induction flows arbitrary: i)
  case Nil
  show ?case by (simp add: matrix_links_Nil)
next
  case (Cons row flows)
  have row: "sorted_wrt row_major_before (row_links n i 0 row)"
    by (rule sorted_wrt_mono_rel [OF _ row_links_sorted]) (simp add: row_major_before_def)
  have cross: "row_major_before a b"
    if "a \<in> set (row_links n i 0 row)" "b \<in> set (matrix_links n (Suc i) flows)" for a b
    using row_links_fst [OF that(1)] matrix_links_fst [OF that(2)]
    by (simp add: row_major_before_def)
  show ?case
    using row Cons.IH [of "Suc i"] cross by (simp add: matrix_links_Cons sorted_wrt_append)
qed

lemma links_length:
  assumes "concept_prediction_sankey vc cw c p fl cc pc = Inr d"
  shows "length (links d) = length (matrix_links (length c) 0 fl)"
proof -
  note f = concept_prediction_sankey_fields [OF assms]
  have "length (map Inr (link_value d) :: (error + pyfloat) list) =
      length (matrix_links (length c) 0 fl)"
    unfolding f(6) by simp
  then show ?thesis by (simp add: links_def f(4) f(5))
qed

lemma links_nth:
  assumes "concept_prediction_sankey vc cw c p fl cc pc = Inr d"
    and "k < length (matrix_links (length c) 0 fl)"
  shows "\<exists>f. py_float (snd (snd (matrix_links (length c) 0 fl ! k))) = Inr f \<and>
           links d ! k =
             (fst (matrix_links (length c) 0 fl ! k),
              fst (snd (matrix_links (length c) 0 fl ! k)), f)"
proof -
  note f = concept_prediction_sankey_fields [OF assms(1)]
  let ?L = "matrix_links (length c) 0 fl"
  have len: "length (link_value d) = length ?L"
    using arg_cong [OF f(6), of length] by simp
  have "map Inr (link_value d) ! k = map (\<lambda>l. py_float (snd (snd l))) ?L ! k"
    unfolding f(6) ..
  then have v: "py_float (snd (snd (?L ! k))) = Inr (link_value d ! k)"
    using assms(2) len by simp
  have "links d ! k = (fst (?L ! k), fst (snd (?L ! k)), link_value d ! k)"
    using assms(2) len by (simp add: links_def f(4) f(5))
  with v show ?thesis by blast
qed

lemma links_sorted:
  assumes "concept_prediction_sankey vc cw c p fl cc pc = Inr d"
  shows "sorted_wrt row_major_before (links d)"
proof -
  let ?L = "matrix_links (length c) 0 fl"
  have "row_major_before (links d ! a) (links d ! b)" if "a < b" "b < length (links d)" for a b
  proof -
    have b: "b < length ?L" and a: "a < length ?L"
      using that links_length [OF assms] by simp_all
    from links_nth [OF assms a] links_nth [OF assms b]
    have "fst (links d ! a) = fst (?L ! a)" "fst (snd (links d ! a)) = fst (snd (?L ! a))"
      "fst (links d ! b) = fst (?L ! b)" "fst (snd (links d ! b)) = fst (snd (?L ! b))"
      by auto
    moreover have "row_major_before (?L ! a) (?L ! b)"
      using matrix_links_sorted [of "length c" 0 fl] that(1) b
      by (simp add: sorted_wrt_iff_nth_less)
    ultimately show ?thesis by (simp add: row_major_before_def)
  qed
  then show ?thesis by (simp add: sorted_wrt_iff_nth_less)
qed

lemma links_refine:
  assumes "concept_prediction_sankey vc cw c p fl cc pc = Inr d"
  shows "map (\<lambda>(s, t, f). (s, t, Inr f)) (links d) =
         map (\<lambda>(i, t, v). (i, t, py_float v)) (matrix_links (length c) 0 fl)"
proof (rule nth_equalityI)
  show "length (map (\<lambda>(s, t, f). (s, t, Inr f)) (links d)) =
      length (map (\<lambda>(i, t, v). (i, t, py_float v)) (matrix_links (length c) 0 fl))"
    using links_length [OF assms] by simp
next
  fix k assume "k < length (map (\<lambda>(s, t, f). (s, t, Inr f)) (links d))"
  then have k: "k < length (matrix_links (length c) 0 fl)"
    using links_length [OF assms] by simp
  from links_nth [OF assms k] obtain f where
    "py_float (snd (snd (matrix_links (length c) 0 fl ! k))) = Inr f"
    "links d ! k = (fst (matrix_links (length c) 0 fl ! k),
       fst (snd (matrix_links (length c) 0 fl ! k)), f)"
    by blast
  then show "map (\<lambda>(s, t, f). (s, t, Inr f)) (links d) ! k =
      map (\<lambda>(i, t, v). (i, t, py_float v)) (matrix_links (length c) 0 fl) ! k"
    using k links_length [OF assms] by (simp add: case_prod_beta)
qed

lemma links_of_cell:
  assumes "concept_prediction_sankey vc cw c p fl cc pc = Inr d"
    and "i < length fl" and "j < length (fl ! i)" and "\<not> py_eq_zero (fl ! i ! j)"
  shows "\<exists>f. py_float (fl ! i ! j) = Inr f \<and> (i, length c + j, f) \<in> set (links d)"
proof -
  let ?L = "matrix_links (length c) 0 fl"
  have "(0 + i, length c + j, fl ! i ! j) \<in> set ?L"
    unfolding matrix_links_set using assms(2-4) by blast
  then obtain k where k: "k < length ?L" and Lk: "?L ! k = (i, length c + j, fl ! i ! j)"
    by (auto simp: in_set_conv_nth)
  from links_nth [OF assms(1) k] obtain f where
    "py_float (fl ! i ! j) = Inr f" "links d ! k = (i, length c + j, f)"
    unfolding Lk by auto
  moreover have "k < length (links d)" using k links_length [OF assms(1)] by simp
  ultimately show ?thesis by (metis nth_mem)
qed

lemma resolve_palette_Some:
  "resolve_palette cw (Some cs) = (if cs = [] then default_palette else cs)"
  by (simp add: resolve_palette_def template_or_given_def)

lemma resolve_palette_None:
  "resolve_palette cw None =
     (case cw of None \<Rightarrow> default_palette
      | Some cs \<Rightarrow> if cs = [] then default_palette else cs)"
  by (simp add: resolve_palette_def template_or_given_def split: option.splits)

lemma int_to_float_neg3: "int_to_float (- 3) = Inr (Float True 1024 2251799813685248)"
  by (simp add: int_to_float_def Let_def bit_length.simps)

lemma rows_loop_Inl_shape:
  "list_all (\<lambda>row. length row = p) flows \<Longrightarrow> rows_loop n p i flows acc = Inl e \<Longrightarrow>
     e = OverflowError ''int too large to convert to float''"
proof (induction flows arbitrary: i acc)
  case Nil
  then show ?case by simp
next
  case (Cons row flows)
  then show ?case
    by (auto split: sum.splits dest: cells_loop_Inl)
qed


section \<open>The claims\<close>

subsection \<open>Number of links\<close>

text \<open>
  C1. For every concepts list, predictions list and flow matrix with as many rows as
  concepts and every row as long as the predictions, whose cells \<^verbatim>\<open>float\<close> converts
  (every float; every integer below \<open>2 ^ 1024 - 2 ^ 970\<close> in magnitude), and for palette
  arguments that give the nodes colours the charting library takes for colours, the builder
  returns a figure; the common length of its source, target and value arrays is the number
  of cells that are not zero; and the cell of every link is not zero, so a zero cell has no
  link.
\<close>

theorem link_count:
  assumes "shape_ok concepts predictions flows"
    and "list_all (list_all float_ok) flows"
    and "list_all valid_color
           (assigned_colors colorway concepts predictions concept_colors prediction_color)"
  shows "\<exists>d. concept_prediction_sankey valid_color colorway concepts predictions flows
               concept_colors prediction_color = Inr d \<and>
             length (link_source d) = nonzero_cells flows \<and>
             length (link_target d) = nonzero_cells flows \<and>
             length (link_value d) = nonzero_cells flows \<and>
             (\<forall>k<length (link_source d).
                 \<not> py_eq_zero
                     (flows ! (link_source d ! k) ! (link_target d ! k - length concepts)))"
proof -
  from assms obtain d where d: "concept_prediction_sankey valid_color colorway concepts
      predictions flows concept_colors prediction_color = Inr d"
    using concept_prediction_sankey_returns_iff by blast
  note f = concept_prediction_sankey_fields [OF d]
  let ?L = "matrix_links (length concepts) 0 flows"
  have n: "length ?L = nonzero_cells flows" by (rule length_matrix_links)
  have src: "length (link_source d) = nonzero_cells flows" unfolding f(4) using n by simp
  have tgt: "length (link_target d) = nonzero_cells flows" unfolding f(5) using n by simp
  have val: "length (link_value d) = nonzero_cells flows"
    using arg_cong [OF f(6), of length] n by simp
  have nz: "\<not> py_eq_zero (flows ! (link_source d ! k) ! (link_target d ! k - length concepts))"
    if "k < length (link_source d)" for k
  proof -
    have k: "k < length ?L" using that unfolding f(4) by simp
    then have "?L ! k \<in> set ?L" by simp
    then obtain r j where "?L ! k = (0 + r, length concepts + j, flows ! r ! j)"
      "\<not> py_eq_zero (flows ! r ! j)"
      unfolding matrix_links_set by blast
    then show ?thesis using k by (simp add: f(4) f(5))
  qed
  from d src tgt val nz show ?thesis by blast
qed

theorem link_count_witness:
  "shape_ok [''fur'', ''tail''] [''cat'', ''dog'']
     [[PyInt 1, PyFloat (Float True 0 0)], [PyInt 0, PyInt 2]] \<and>
   list_all (list_all float_ok) [[PyInt 1, PyFloat (Float True 0 0)], [PyInt 0, PyInt 2]] \<and>
   list_all hex_color (assigned_colors None [''fur'', ''tail''] [''cat'', ''dog''] None ''#111827'') \<and>
   nonzero_cells [[PyInt 1, PyFloat (Float True 0 0)], [PyInt 0, PyInt 2]] = 2 \<and>
   (\<exists>d. concept_prediction_sankey hex_color None [''fur'', ''tail''] [''cat'', ''dog'']
          [[PyInt 1, PyFloat (Float True 0 0)], [PyInt 0, PyInt 2]] None ''#111827'' = Inr d \<and>
        length (link_source d) = 2 \<and> length (link_target d) = 2 \<and> length (link_value d) = 2)"
proof -
  have shape: "shape_ok [''fur'', ''tail''] [''cat'', ''dog'']
     [[PyInt 1, PyFloat (Float True 0 0)], [PyInt 0, PyInt 2]]"
    by (simp add: shape_ok_def)
  have cells: "list_all (list_all float_ok)
     [[PyInt 1, PyFloat (Float True 0 0)], [PyInt 0, PyInt 2]]"
    by (simp add: float_ok_PyInt float_ok_PyFloat)
  have colours: "list_all hex_color
     (assigned_colors None [''fur'', ''tail''] [''cat'', ''dog''] None ''#111827'')"
    by (simp add: assigned_colors_def resolve_palette_None default_palette_def hex_color_def
          mod_Suc)
  have count: "nonzero_cells [[PyInt 1, PyFloat (Float True 0 0)], [PyInt 0, PyInt 2]] = 2"
    by (simp add: nonzero_cells_def)
  from link_count [OF shape cells colours] shape cells colours count
  show ?thesis by (auto simp: count)
qed

text \<open>
  Without the conditions on the cells and on the colours the count fails. In the first
  call the shape is right and the one cell is not zero, but it is an integer that
  \<^verbatim>\<open>float\<close> cannot convert, and the builder raises \<^verbatim>\<open>OverflowError\<close>. In the second the shape
  is right and the one cell is 1.0, but the palette holds a string that is not a colour, and
  the charting library raises its \<^verbatim>\<open>ValueError\<close> when the node colours reach it.
\<close>

theorem link_count_counterexample:
  "shape_ok [''A''] [''X''] [[PyInt (2 ^ 1024)]] \<and>
   nonzero_cells [[PyInt (2 ^ 1024)]] = 1 \<and>
   concept_prediction_sankey hex_color None [''A''] [''X''] [[PyInt (2 ^ 1024)]] None ''#111827'' =
     Inl (OverflowError ''int too large to convert to float'') \<and>
   shape_ok [''A''] [''X''] [[PyFloat (Float False 1023 0)]] \<and>
   nonzero_cells [[PyFloat (Float False 1023 0)]] = 1 \<and>
   \<not> hex_color ''notacolor'' \<and>
   concept_prediction_sankey hex_color None [''A''] [''X''] [[PyFloat (Float False 1023 0)]]
     (Some [''notacolor'']) ''#111827'' = Inl (PlotlyValueError ''sankey.node.color'')"
proof -
  have "int_to_float (2 ^ 1024) = Inl (OverflowError ''int too large to convert to float'')"
    by (rule int_to_float_overflow) simp
  then have 1: "shape_ok [''A''] [''X''] [[PyInt (2 ^ 1024)]] \<and>
      nonzero_cells [[PyInt (2 ^ 1024)]] = 1 \<and>
      concept_prediction_sankey hex_color None [''A''] [''X''] [[PyInt (2 ^ 1024)]] None
        ''#111827'' = Inl (OverflowError ''int too large to convert to float'')"
    by (simp add: shape_ok_def nonzero_cells_def concept_prediction_sankey_unfold)
  have 2: "shape_ok [''A''] [''X''] [[PyFloat (Float False 1023 0)]] \<and>
      nonzero_cells [[PyFloat (Float False 1023 0)]] = 1 \<and>
      \<not> hex_color ''notacolor'' \<and>
      concept_prediction_sankey hex_color None [''A''] [''X''] [[PyFloat (Float False 1023 0)]]
        (Some [''notacolor'']) ''#111827'' = Inl (PlotlyValueError ''sankey.node.color'')"
    by (simp add: shape_ok_def nonzero_cells_def concept_prediction_sankey_def py_mod_def
          py_getitem_def resolve_palette_Some sankey_figure_def validate_colors_def
          hex_color_def Let_def)
  from 1 2 show ?thesis by blast
qed


subsection \<open>Bipartite invariant\<close>

text \<open>
  C2. In every figure the builder returns, every link goes from a source category to a
  target category: its source index is below \<open>len(concepts)\<close>, its target index is at
  least \<open>len(concepts)\<close> and below the number of nodes,
  \<open>len(concepts) + len(predictions)\<close>.
\<close>

theorem bipartite_links:
  assumes "concept_prediction_sankey valid_color colorway concepts predictions flows concept_colors
             prediction_color = Inr d"
    and "k < length (link_source d)"
  shows "link_source d ! k < length concepts \<and>
         length concepts \<le> link_target d ! k \<and>
         link_target d ! k < length concepts + length predictions \<and>
         length (node_label d) = length concepts + length predictions"
proof -
  note f = concept_prediction_sankey_fields [OF assms(1)]
  let ?L = "matrix_links (length concepts) 0 flows"
  have k: "k < length ?L" using assms(2) unfolding f(4) by simp
  then have mem: "?L ! k \<in> set ?L" by simp
  have rows: "length flows = length concepts"
    and cols: "list_all (\<lambda>row. length row = length predictions) flows"
    using f(1) by (simp_all add: shape_ok_def)
  have "fst (?L ! k) < length concepts"
    using matrix_links_fst [OF mem] rows by simp
  moreover have "length concepts \<le> fst (snd (?L ! k)) \<and>
      fst (snd (?L ! k)) < length concepts + length predictions"
    by (rule matrix_links_target [OF mem cols])
  moreover have "link_source d ! k = fst (?L ! k)" "link_target d ! k = fst (snd (?L ! k))"
    using k by (simp_all add: f(4) f(5))
  moreover have "length (node_label d) = length concepts + length predictions"
    unfolding f(2) by simp
  ultimately show ?thesis by simp
qed

theorem bipartite_links_witness:
  "concept_prediction_sankey hex_color None [''red'', ''round''] [''apple'', ''ball'', ''brick'']
      [[PyInt 2, PyInt 1, PyInt 1], [PyInt 1, PyInt 2, PyInt 0]] None ''#111827''
    = Inr (figure_of [''red'', ''round'', ''apple'', ''ball'', ''brick'']
             [''#4c78a8'', ''#72b7b2'', ''#111827'', ''#111827'', ''#111827'']
             [0, 0, 0, 1, 1] [2, 3, 4, 2, 3]
             [Float False 1024 0, Float False 1023 0, Float False 1023 0,
              Float False 1023 0, Float False 1024 0]
             (Some [''#4c78a8'', ''#4c78a8'', ''#4c78a8'', ''#72b7b2'', ''#72b7b2''])) \<and>
   [0, 0, 0, 1, 1] ! 3 < length [''red'', ''round''] \<and>
   length [''red'', ''round''] \<le> [2, 3, 4, 2, 3] ! 3 \<and>
   [2, 3, 4, 2, 3] ! 3 < length [''red'', ''round''] + length [''apple'', ''ball'', ''brick'']"
proof -
  let ?d = "figure_of [''red'', ''round'', ''apple'', ''ball'', ''brick'']
             [''#4c78a8'', ''#72b7b2'', ''#111827'', ''#111827'', ''#111827'']
             [0, 0, 0, 1, 1] [2, 3, 4, 2, 3]
             [Float False 1024 0, Float False 1023 0, Float False 1023 0,
              Float False 1023 0, Float False 1024 0]
             (Some [''#4c78a8'', ''#4c78a8'', ''#4c78a8'', ''#72b7b2'', ''#72b7b2''])"
  have run: "concept_prediction_sankey hex_color None [''red'', ''round''] [''apple'', ''ball'', ''brick'']
      [[PyInt 2, PyInt 1, PyInt 1], [PyInt 1, PyInt 2, PyInt 0]] None ''#111827'' = Inr ?d"
    by (simp add: concept_prediction_sankey_def int_to_float_1 int_to_float_2 py_mod_def
          py_getitem_def resolve_palette_def template_or_given_def default_palette_def
          sankey_figure_def validate_colors_def figure_of_def hex_color_def)
  have k: "3 < length (link_source ?d)" by (simp add: sankey_figure_def validate_colors_def figure_of_def hex_color_def)
  have src: "link_source ?d = [0, 0, 0, 1, 1]" and tgt: "link_target ?d = [2, 3, 4, 2, 3]"
    by (simp_all add: sankey_figure_def validate_colors_def figure_of_def hex_color_def)
  from bipartite_links [OF run k] run show ?thesis
    unfolding src tgt by blast
qed


subsection \<open>Shape errors\<close>

text \<open>
  C3. A flow matrix of the wrong shape never gives a figure. When the number of rows
  differs from \<open>len(concepts)\<close> the builder raises the \<^verbatim>\<open>ValueError\<close> of line 290. When the
  number of rows is right and some row's length differs from \<open>len(predictions)\<close> it raises
  an error: the \<^verbatim>\<open>ValueError\<close> of line 299 when \<^verbatim>\<open>float\<close> converts every cell of the rows
  before the first row of the wrong length.
\<close>

theorem shape_mismatch_raises:
  "(length flows \<noteq> length concepts \<longrightarrow>
      concept_prediction_sankey valid_color colorway concepts predictions flows concept_colors
        prediction_color = Inl (ValueError ''flows rows must match number of concepts'')) \<and>
   (\<not> shape_ok concepts predictions flows \<longrightarrow>
      (\<exists>e. concept_prediction_sankey valid_color colorway concepts predictions flows concept_colors
             prediction_color = Inl e)) \<and>
   (length flows = length concepts \<and> flows = good @ bad # rest \<and>
    list_all (\<lambda>row. length row = length predictions) good \<and>
    list_all (list_all float_ok) good \<and> length bad \<noteq> length predictions \<longrightarrow>
      concept_prediction_sankey valid_color colorway concepts predictions flows concept_colors
        prediction_color = Inl (ValueError ''each flow row must match number of predictions''))"
proof (intro conjI impI)
  assume "length flows \<noteq> length concepts"
  then show "concept_prediction_sankey valid_color colorway concepts predictions flows concept_colors
      prediction_color = Inl (ValueError ''flows rows must match number of concepts'')"
    by (simp add: concept_prediction_sankey_def)
next
  assume "\<not> shape_ok concepts predictions flows"
  then have "\<nexists>d. concept_prediction_sankey valid_color colorway concepts predictions flows concept_colors
      prediction_color = Inr d"
    using concept_prediction_sankey_returns_iff by blast
  then show "\<exists>e. concept_prediction_sankey valid_color colorway concepts predictions flows concept_colors
      prediction_color = Inl e"
    by (cases "concept_prediction_sankey valid_color colorway concepts predictions flows concept_colors
      prediction_color") auto
next
  assume a: "length flows = length concepts \<and> flows = good @ bad # rest \<and>
    list_all (\<lambda>row. length row = length predictions) good \<and>
    list_all (list_all float_ok) good \<and> length bad \<noteq> length predictions"
  then have len: "length flows = length concepts" and fl: "flows = good @ bad # rest"
    by blast+
  have "rows_loop (length concepts) (length predictions) 0 flows ([], [], []) =
      Inl (ValueError ''each flow row must match number of predictions'')"
    unfolding fl
    using a rows_loop_first_bad [of "length predictions" good bad "length concepts" 0 rest
        "([], [], [])"]
    by simp
  then show "concept_prediction_sankey valid_color colorway concepts predictions flows concept_colors
      prediction_color = Inl (ValueError ''each flow row must match number of predictions'')"
    using len by (simp add: concept_prediction_sankey_def)
qed

theorem shape_mismatch_raises_witness:
  "length [[PyInt 1, PyInt 0], [PyInt 0, PyInt 2], [PyInt 3, PyInt 3]] \<noteq> length [''A'', ''B''] \<and>
   \<not> shape_ok [''A'', ''B''] [''X'', ''Y'']
       [[PyInt 1, PyInt 0], [PyInt 0, PyInt 2], [PyInt 3, PyInt 3]] \<and>
   concept_prediction_sankey hex_color None [''A'', ''B''] [''X'', ''Y'']
     [[PyInt 1, PyInt 0], [PyInt 0, PyInt 2], [PyInt 3, PyInt 3]] None ''#111827'' =
     Inl (ValueError ''flows rows must match number of concepts'') \<and>
   length [[PyInt 1, PyInt 2], [PyInt 5]] = length [''A'', ''B''] \<and>
   [[PyInt 1, PyInt 2], [PyInt 5]] = [[PyInt 1, PyInt 2]] @ [PyInt 5] # [] \<and>
   list_all (\<lambda>row. length row = length [''X'', ''Y'']) [[PyInt 1, PyInt 2]] \<and>
   list_all (list_all float_ok) [[PyInt 1, PyInt 2]] \<and>
   length [PyInt 5] \<noteq> length [''X'', ''Y''] \<and>
   concept_prediction_sankey hex_color None [''A'', ''B''] [''X'', ''Y'']
     [[PyInt 1, PyInt 2], [PyInt 5]] None ''#111827'' =
     Inl (ValueError ''each flow row must match number of predictions'')"
proof -
  have rows: "length [[PyInt 1, PyInt 0], [PyInt 0, PyInt 2], [PyInt 3, PyInt 3]] \<noteq>
      length [''A'', ''B'']"
    by simp
  have shape: "\<not> shape_ok [''A'', ''B''] [''X'', ''Y'']
       [[PyInt 1, PyInt 0], [PyInt 0, PyInt 2], [PyInt 3, PyInt 3]]"
    by (simp add: shape_ok_def)
  have cols: "length [[PyInt 1, PyInt 2], [PyInt 5]] = length [''A'', ''B''] \<and>
      [[PyInt 1, PyInt 2], [PyInt 5]] = [[PyInt 1, PyInt 2]] @ [PyInt 5] # [] \<and>
      list_all (\<lambda>row. length row = length [''X'', ''Y'']) [[PyInt 1, PyInt 2]] \<and>
      list_all (list_all float_ok) [[PyInt 1, PyInt 2]] \<and>
      length [PyInt 5] \<noteq> length [''X'', ''Y'']"
    by (simp add: float_ok_PyInt)
  note a = shape_mismatch_raises [of "[[PyInt 1, PyInt 0], [PyInt 0, PyInt 2], [PyInt 3, PyInt 3]]"
      "[''A'', ''B'']" hex_color None "[''X'', ''Y'']" None "''#111827''"]
  note b = shape_mismatch_raises [of "[[PyInt 1, PyInt 2], [PyInt 5]]" "[''A'', ''B'']" hex_color None
      "[''X'', ''Y'']" None "''#111827''" "[[PyInt 1, PyInt 2]]" "[PyInt 5]" "[]"]
  from a rows have 1: "concept_prediction_sankey hex_color None [''A'', ''B''] [''X'', ''Y'']
     [[PyInt 1, PyInt 0], [PyInt 0, PyInt 2], [PyInt 3, PyInt 3]] None ''#111827'' =
     Inl (ValueError ''flows rows must match number of concepts'')"
    by blast
  from b cols have 2: "concept_prediction_sankey hex_color None [''A'', ''B''] [''X'', ''Y'']
     [[PyInt 1, PyInt 2], [PyInt 5]] None ''#111827'' =
     Inl (ValueError ''each flow row must match number of predictions'')"
    by blast
  from rows shape 1 cols 2 show ?thesis by blast
qed

text \<open>
  As the specification words it, every row of the wrong length gives the shape error. It
  does not where an earlier row holds an integer that \<^verbatim>\<open>float\<close> cannot convert: the rows are
  checked one by one, each right before its cells are converted, and here the
  \<^verbatim>\<open>OverflowError\<close> of the first row comes before the check of the second.
\<close>

theorem shape_mismatch_raises_counterexample:
  "length [[PyInt (2 ^ 1024)], [PyInt 1, PyInt 2]] = length [''A'', ''B''] \<and>
   length [PyInt 1, PyInt 2] \<noteq> length [''X''] \<and>
   \<not> shape_ok [''A'', ''B''] [''X''] [[PyInt (2 ^ 1024)], [PyInt 1, PyInt 2]] \<and>
   concept_prediction_sankey hex_color None [''A'', ''B''] [''X'']
     [[PyInt (2 ^ 1024)], [PyInt 1, PyInt 2]] None ''#111827'' =
     Inl (OverflowError ''int too large to convert to float'')"
proof -
  have "int_to_float (2 ^ 1024) = Inl (OverflowError ''int too large to convert to float'')"
    by (rule int_to_float_overflow) simp
  then show ?thesis
    by (simp add: shape_ok_def concept_prediction_sankey_unfold)
qed


subsection \<open>The two-by-two example\<close>

text \<open>
  C4. For concepts \<open>["A", "B"]\<close>, predictions \<open>["X", "Y"]\<close> and the matrix
  \<open>[[1, 0], [0, 2]]\<close> the builder returns a figure whenever the charting library takes the
  four node colours for colours, as it does in the call with no palette arguments, and only
  then. The figure holds exactly two links: from 0 to 2 with value 1.0 (exponent field 1023,
  fraction 0) and from 1 to 3 with value 2.0 (exponent field 1024, fraction 0). The two zero
  cells give no link.
\<close>

theorem two_by_two_links:
  "map_sum id links
     (concept_prediction_sankey valid_color colorway [''A'', ''B''] [''X'', ''Y'']
        [[PyInt 1, PyInt 0], [PyInt 0, PyInt 2]] concept_colors prediction_color) =
   (if list_all valid_color
         (assigned_colors colorway [''A'', ''B''] [''X'', ''Y''] concept_colors prediction_color)
    then Inr [(0, 2, Float False 1023 0), (1, 3, Float False 1024 0)]
    else Inl (PlotlyValueError ''sankey.node.color''))"
  by (simp add: concept_prediction_sankey_unfold int_to_float_1 int_to_float_2
        figure_of_def links_def)

text \<open>The call with no palette arguments, under a template with no colorway: the palette is
  the five-colour one and the prediction colour the default \<^verbatim>\<open>#111827\<close>.\<close>

theorem two_by_two_links_witness:
  "list_all hex_color (assigned_colors None [''A'', ''B''] [''X'', ''Y''] None ''#111827'') \<and>
   concept_prediction_sankey hex_color None [''A'', ''B''] [''X'', ''Y'']
     [[PyInt 1, PyInt 0], [PyInt 0, PyInt 2]] None ''#111827'' =
     Inr (figure_of [''A'', ''B'', ''X'', ''Y'']
            [''#4c78a8'', ''#72b7b2'', ''#111827'', ''#111827''] [0, 1] [2, 3]
            [Float False 1023 0, Float False 1024 0] (Some [''#4c78a8'', ''#72b7b2''])) \<and>
   map_sum id links
     (concept_prediction_sankey hex_color None [''A'', ''B''] [''X'', ''Y'']
        [[PyInt 1, PyInt 0], [PyInt 0, PyInt 2]] None ''#111827'') =
     Inr [(0, 2, Float False 1023 0), (1, 3, Float False 1024 0)]"
proof -
  have colours: "list_all hex_color
      (assigned_colors None [''A'', ''B''] [''X'', ''Y''] None ''#111827'')"
    by (simp add: assigned_colors_def resolve_palette_None default_palette_def hex_color_def
          mod_Suc)
  have run: "concept_prediction_sankey hex_color None [''A'', ''B''] [''X'', ''Y'']
     [[PyInt 1, PyInt 0], [PyInt 0, PyInt 2]] None ''#111827'' =
     Inr (figure_of [''A'', ''B'', ''X'', ''Y'']
            [''#4c78a8'', ''#72b7b2'', ''#111827'', ''#111827''] [0, 1] [2, 3]
            [Float False 1023 0, Float False 1024 0] (Some [''#4c78a8'', ''#72b7b2'']))"
    by (simp add: concept_prediction_sankey_def int_to_float_1 int_to_float_2 py_mod_def
          py_getitem_def resolve_palette_def template_or_given_def default_palette_def
          sankey_figure_def validate_colors_def figure_of_def hex_color_def Let_def mod_Suc)
  from two_by_two_links [of hex_color None None "''#111827''"] colours
  have "map_sum id links
     (concept_prediction_sankey hex_color None [''A'', ''B''] [''X'', ''Y'']
        [[PyInt 1, PyInt 0], [PyInt 0, PyInt 2]] None ''#111827'') =
     Inr [(0, 2, Float False 1023 0), (1, 3, Float False 1024 0)]"
    by simp
  with colours run show ?thesis by blast
qed


subsection \<open>Colours\<close>

text \<open>
  C5. In every figure the builder returns, the node of source category \<open>i\<close> has the colour
  \<open>palette[i % len(palette)]\<close>, where the palette is the one lines 307 to 313 settle on
  (a non-empty \<^verbatim>\<open>concept_colors\<close> is that palette); the node of every target category has
  \<^verbatim>\<open>prediction_color\<close>; and every link has the colour of its source node.
\<close>

theorem colour_assignment:
  assumes "concept_prediction_sankey valid_color colorway concepts predictions flows concept_colors
             prediction_color = Inr d"
  shows "(\<forall>i<length concepts.
            node_color d ! i =
              resolve_palette colorway concept_colors !
                (i mod length (resolve_palette colorway concept_colors))) \<and>
         (\<forall>j<length predictions. node_color d ! (length concepts + j) = prediction_color) \<and>
         (\<exists>cs. link_color d = Some cs \<and> length cs = length (link_source d) \<and>
               (\<forall>k<length (link_source d). cs ! k = node_color d ! (link_source d ! k))) \<and>
         (\<forall>cs. concept_colors = Some cs \<and> cs \<noteq> [] \<longrightarrow>
               resolve_palette colorway concept_colors = cs)"
proof -
  note f = concept_prediction_sankey_fields [OF assms]
  let ?P = "resolve_palette colorway concept_colors"
  let ?L = "matrix_links (length concepts) 0 flows"
  have rows: "length flows = length concepts" using f(1) by (simp add: shape_ok_def)
  have 1: "\<forall>i<length concepts. node_color d ! i = ?P ! (i mod length ?P)"
    unfolding f(3) by (simp add: nth_append)
  have 2: "\<forall>j<length predictions. node_color d ! (length concepts + j) = prediction_color"
    unfolding f(3) by (simp add: nth_append)
  have src: "link_source d ! k < length concepts" if "k < length (link_source d)" for k
  proof -
    have "?L ! k \<in> set ?L" using that unfolding f(4) by simp
    from matrix_links_fst [OF this] show ?thesis using that rows by (simp add: f(4))
  qed
  have 3: "\<exists>cs. link_color d = Some cs \<and> length cs = length (link_source d) \<and>
      (\<forall>k<length (link_source d). cs ! k = node_color d ! (link_source d ! k))"
    using f(7) 1 src by simp
  have 4: "\<forall>cs. concept_colors = Some cs \<and> cs \<noteq> [] \<longrightarrow> ?P = cs"
    by (simp add: resolve_palette_def template_or_given_def)
  from 1 2 3 4 show ?thesis by blast
qed

theorem colour_assignment_witness:
  "concept_prediction_sankey hex_color None [''c0'', ''c1'', ''c2'', ''c3'', ''c4''] [''out'']
      [[PyInt 1], [PyInt 0], [PyInt 2], [PyInt 1], [PyInt 0]]
      (Some [''#ff0000'', ''#0000ff'']) ''#111827''
    = Inr (figure_of [''c0'', ''c1'', ''c2'', ''c3'', ''c4'', ''out'']
             [''#ff0000'', ''#0000ff'', ''#ff0000'', ''#0000ff'', ''#ff0000'', ''#111827'']
             [0, 2, 3] [5, 5, 5]
             [Float False 1023 0, Float False 1024 0, Float False 1023 0]
             (Some [''#ff0000'', ''#ff0000'', ''#0000ff''])) \<and>
   resolve_palette None (Some [''#ff0000'', ''#0000ff'']) = [''#ff0000'', ''#0000ff''] \<and>
   [''#ff0000'', ''#0000ff'', ''#ff0000'', ''#0000ff'', ''#ff0000'', ''#111827''] ! 4 =
     [''#ff0000'', ''#0000ff''] ! (4 mod 2) \<and>
   [''#ff0000'', ''#0000ff'', ''#ff0000'', ''#0000ff'', ''#ff0000'', ''#111827''] ! 3 =
     [''#ff0000'', ''#0000ff''] ! (3 mod 2) \<and>
   [''#ff0000'', ''#0000ff'', ''#ff0000'', ''#0000ff'', ''#ff0000'', ''#111827''] ! (5 + 0) =
     ''#111827''"
proof -
  let ?d = "figure_of [''c0'', ''c1'', ''c2'', ''c3'', ''c4'', ''out'']
             [''#ff0000'', ''#0000ff'', ''#ff0000'', ''#0000ff'', ''#ff0000'', ''#111827'']
             [0, 2, 3] [5, 5, 5]
             [Float False 1023 0, Float False 1024 0, Float False 1023 0]
             (Some [''#ff0000'', ''#ff0000'', ''#0000ff''])"
  have run: "concept_prediction_sankey hex_color None [''c0'', ''c1'', ''c2'', ''c3'', ''c4''] [''out'']
      [[PyInt 1], [PyInt 0], [PyInt 2], [PyInt 1], [PyInt 0]]
      (Some [''#ff0000'', ''#0000ff'']) ''#111827'' = Inr ?d"
    by (simp add: concept_prediction_sankey_def int_to_float_1 int_to_float_2 py_mod_def
          py_getitem_def resolve_palette_def template_or_given_def sankey_figure_def validate_colors_def figure_of_def hex_color_def
          Let_def mod_Suc)
  have pal: "resolve_palette None (Some [''#ff0000'', ''#0000ff'']) = [''#ff0000'', ''#0000ff'']"
    by (simp add: resolve_palette_def template_or_given_def)
  have nc: "node_color ?d =
      [''#ff0000'', ''#0000ff'', ''#ff0000'', ''#0000ff'', ''#ff0000'', ''#111827'']"
    by (simp add: sankey_figure_def validate_colors_def figure_of_def hex_color_def)
  note th = colour_assignment [OF run, unfolded pal nc]
  from th have "[''#ff0000'', ''#0000ff'', ''#ff0000'', ''#0000ff'', ''#ff0000'', ''#111827''] ! 4 =
     [''#ff0000'', ''#0000ff''] ! (4 mod 2)"
    by simp
  moreover from th
  have "[''#ff0000'', ''#0000ff'', ''#ff0000'', ''#0000ff'', ''#ff0000'', ''#111827''] ! 3 =
     [''#ff0000'', ''#0000ff''] ! (3 mod 2)"
    by simp
  moreover from th
  have "[''#ff0000'', ''#0000ff'', ''#ff0000'', ''#0000ff'', ''#ff0000'', ''#111827''] ! (5 + 0) =
     ''#111827''"
    by simp
  ultimately show ?thesis using run pal by blast
qed


subsection \<open>Row-major emission\<close>

text \<open>
  C6. In every figure the builder returns, the links are the ones the specification
  words, in its order: read as (source, target, value) triples they are the row-major
  list \<open>matrix_links\<close> of the cells that are not zero, the cell at row \<open>i\<close> and column
  \<open>j\<close> giving source \<open>i\<close>, target \<open>len(concepts) + j\<close> and value \<^verbatim>\<open>float\<close> of the cell.
  Independently of that list: the links are strictly increasing in row-major order, so no
  cell has two links; every cell that is not zero has its link; and there are as many
  links as cells that are not zero.
\<close>

theorem row_major_links:
  assumes "concept_prediction_sankey valid_color colorway concepts predictions flows concept_colors
             prediction_color = Inr d"
  shows "map (\<lambda>(s, t, f). (s, t, Inr f)) (links d) =
           map (\<lambda>(i, t, v). (i, t, py_float v)) (matrix_links (length concepts) 0 flows) \<and>
         sorted_wrt row_major_before (links d) \<and>
         (\<forall>i j. i < length flows \<and> j < length (flows ! i) \<and> \<not> py_eq_zero (flows ! i ! j) \<longrightarrow>
            (\<exists>f. py_float (flows ! i ! j) = Inr f \<and>
                 (i, length concepts + j, f) \<in> set (links d))) \<and>
         length (links d) = nonzero_cells flows \<and>
         length (link_source d) = length (links d) \<and>
         length (link_target d) = length (links d) \<and>
         length (link_value d) = length (links d)"
proof -
  note f = concept_prediction_sankey_fields [OF assms]
  have len: "length (links d) = length (matrix_links (length concepts) 0 flows)"
    by (rule links_length [OF assms])
  have v: "length (link_value d) = length (matrix_links (length concepts) 0 flows)"
    using arg_cong [OF f(6), of length] by simp
  have "map (\<lambda>(s, t, f). (s, t, Inr f)) (links d) =
      map (\<lambda>(i, t, v). (i, t, py_float v)) (matrix_links (length concepts) 0 flows)"
    by (rule links_refine [OF assms])
  moreover have "sorted_wrt row_major_before (links d)"
    by (rule links_sorted [OF assms])
  moreover have "\<forall>i j. i < length flows \<and> j < length (flows ! i) \<and>
      \<not> py_eq_zero (flows ! i ! j) \<longrightarrow>
        (\<exists>f. py_float (flows ! i ! j) = Inr f \<and> (i, length concepts + j, f) \<in> set (links d))"
    using links_of_cell [OF assms] by blast
  moreover have "length (links d) = nonzero_cells flows"
    unfolding len by (rule length_matrix_links)
  moreover have "length (link_source d) = length (links d)"
    "length (link_target d) = length (links d)" "length (link_value d) = length (links d)"
    unfolding len v by (simp_all add: f(4) f(5))
  ultimately show ?thesis by blast
qed

theorem row_major_links_witness:
  "concept_prediction_sankey hex_color None [''wing'', ''beak''] [''bird'', ''bat'']
      [[PyInt 2, PyInt 1], [PyInt 1, PyInt 0]] None ''#111827''
    = Inr (figure_of [''wing'', ''beak'', ''bird'', ''bat'']
             [''#4c78a8'', ''#72b7b2'', ''#111827'', ''#111827'']
             [0, 0, 1] [2, 3, 2]
             [Float False 1024 0, Float False 1023 0, Float False 1023 0]
             (Some [''#4c78a8'', ''#4c78a8'', ''#72b7b2''])) \<and>
   matrix_links 2 0 [[PyInt 2, PyInt 1], [PyInt 1, PyInt 0]] =
     [(0, 2, PyInt 2), (0, 3, PyInt 1), (1, 2, PyInt 1)] \<and>
   links (figure_of [''wing'', ''beak'', ''bird'', ''bat'']
             [''#4c78a8'', ''#72b7b2'', ''#111827'', ''#111827'']
             [0, 0, 1] [2, 3, 2]
             [Float False 1024 0, Float False 1023 0, Float False 1023 0]
             (Some [''#4c78a8'', ''#4c78a8'', ''#72b7b2''])) =
     [(0, 2, Float False 1024 0), (0, 3, Float False 1023 0), (1, 2, Float False 1023 0)] \<and>
   nonzero_cells [[PyInt 2, PyInt 1], [PyInt 1, PyInt 0]] = 3"
proof -
  let ?d = "figure_of [''wing'', ''beak'', ''bird'', ''bat'']
             [''#4c78a8'', ''#72b7b2'', ''#111827'', ''#111827'']
             [0, 0, 1] [2, 3, 2]
             [Float False 1024 0, Float False 1023 0, Float False 1023 0]
             (Some [''#4c78a8'', ''#4c78a8'', ''#72b7b2''])"
  have run: "concept_prediction_sankey hex_color None [''wing'', ''beak''] [''bird'', ''bat'']
      [[PyInt 2, PyInt 1], [PyInt 1, PyInt 0]] None ''#111827'' = Inr ?d"
    by (simp add: concept_prediction_sankey_def int_to_float_1 int_to_float_2 py_mod_def
          py_getitem_def resolve_palette_def template_or_given_def default_palette_def
          sankey_figure_def validate_colors_def figure_of_def hex_color_def Let_def mod_Suc)
  have ml: "matrix_links 2 0 [[PyInt 2, PyInt 1], [PyInt 1, PyInt 0]] =
     [(0, 2, PyInt 2), (0, 3, PyInt 1), (1, 2, PyInt 1)]"
    by (simp add: matrix_links_Cons matrix_links_Nil row_links_Cons row_links_Nil)
  have ln: "links ?d =
     [(0, 2, Float False 1024 0), (0, 3, Float False 1023 0), (1, 2, Float False 1023 0)]"
    by (simp add: links_def sankey_figure_def validate_colors_def figure_of_def hex_color_def)
  from row_major_links [OF run]
  have "length (links ?d) = nonzero_cells [[PyInt 2, PyInt 1], [PyInt 1, PyInt 0]]"
    by blast
  then have "nonzero_cells [[PyInt 2, PyInt 1], [PyInt 1, PyInt 0]] = 3"
    unfolding ln by simp
  with run ml ln show ?thesis by blast
qed


subsection \<open>Determinism\<close>





subsection \<open>The palette is never empty\<close>

text \<open>
  C8. When \<^verbatim>\<open>concept_colors\<close> is \<open>None\<close> the builder takes the colorway of the default
  template in its place (line 308). When the sequence it then holds is empty, which is when
  the caller gave an empty sequence or gave \<open>None\<close> while the template has no colorway or an
  empty one, the builder replaces it by the fixed palette of five colours (line 311); a
  sequence that is not empty is kept, the caller's own or the template's. So the palette
  that \<open>i % len(palette)\<close> indexes is never empty, the modulus is never zero, and the
  builder raises neither \<^verbatim>\<open>ZeroDivisionError\<close> nor \<^verbatim>\<open>IndexError\<close>.
\<close>

theorem palette_never_empty:
  "resolve_palette colorway concept_colors \<noteq> [] \<and>
   py_mod i (length (resolve_palette colorway concept_colors)) =
     Inr (i mod length (resolve_palette colorway concept_colors)) \<and>
   concept_prediction_sankey valid_color colorway concepts predictions flows concept_colors
     prediction_color \<noteq> Inl ZeroDivisionError \<and>
   concept_prediction_sankey valid_color colorway concepts predictions flows concept_colors
     prediction_color \<noteq> Inl IndexError \<and>
   (template_or_given colorway concept_colors = [] \<longrightarrow>
      resolve_palette colorway concept_colors = default_palette) \<and>
   (template_or_given colorway concept_colors = [] \<longleftrightarrow>
      concept_colors = Some [] \<or>
      (concept_colors = None \<and> (colorway = None \<or> colorway = Some []))) \<and>
   (template_or_given colorway concept_colors \<noteq> [] \<longrightarrow>
      resolve_palette colorway concept_colors = template_or_given colorway concept_colors) \<and>
   (cs \<noteq> [] \<longrightarrow> template_or_given colorway (Some cs) = cs \<and>
      template_or_given (Some cs) None = cs) \<and>
   length default_palette = 5"
proof -
  have 1: "resolve_palette colorway concept_colors \<noteq> []"
    by (rule resolve_palette_nonempty)
  then have 2: "py_mod i (length (resolve_palette colorway concept_colors)) =
      Inr (i mod length (resolve_palette colorway concept_colors))"
    by (simp add: py_mod_def)
  have 3: "concept_prediction_sankey valid_color colorway concepts predictions flows concept_colors
      prediction_color \<noteq> Inl ZeroDivisionError"
    "concept_prediction_sankey valid_color colorway concepts predictions flows concept_colors
      prediction_color \<noteq> Inl IndexError"
    using concept_prediction_sankey_Inl
      [of valid_color colorway concepts predictions flows concept_colors prediction_color]
    by auto
  have 4: "template_or_given colorway concept_colors = [] \<longrightarrow>
      resolve_palette colorway concept_colors = default_palette"
    "template_or_given colorway concept_colors \<noteq> [] \<longrightarrow>
      resolve_palette colorway concept_colors = template_or_given colorway concept_colors"
    by (simp_all add: resolve_palette_def)
  have 5: "template_or_given colorway concept_colors = [] \<longleftrightarrow>
      concept_colors = Some [] \<or>
      (concept_colors = None \<and> (colorway = None \<or> colorway = Some []))"
    by (auto simp: template_or_given_def split: option.splits)
  have 6: "cs \<noteq> [] \<longrightarrow> template_or_given colorway (Some cs) = cs \<and>
      template_or_given (Some cs) None = cs"
    by (simp add: template_or_given_def)
  have 7: "length default_palette = 5" by (simp add: default_palette_def)
  from 1 2 3 4 5 6 7 show ?thesis by blast
qed

theorem palette_never_empty_witness:
  "template_or_given (Some []) None = [] \<and>
   resolve_palette (Some []) None =
     [''#4c78a8'', ''#72b7b2'', ''#f58518'', ''#e45756'', ''#54a24b''] \<and>
   py_mod 7 (length (resolve_palette (Some []) None)) = Inr 2 \<and>
   [''#123456''] \<noteq> [] \<and>
   template_or_given (Some []) (Some [''#123456'']) = [''#123456''] \<and>
   template_or_given (Some [''#123456'']) None = [''#123456'']"
proof -
  note th = palette_never_empty [of "Some []" None 7 hex_color "[]" "[]" "[]" "''#111827''"
      "[''#123456'']"]
  have e: "template_or_given (Some []) None = []" by (simp add: template_or_given_def)
  from th e have p: "resolve_palette (Some []) None = default_palette" by blast
  from th have m: "py_mod 7 (length (resolve_palette (Some []) None)) =
      Inr (7 mod length (resolve_palette (Some []) None))"
    by blast
  have ne: "[''#123456''] \<noteq> []" by simp
  from th ne have g: "template_or_given (Some []) (Some [''#123456'']) = [''#123456''] \<and>
      template_or_given (Some [''#123456'']) None = [''#123456'']"
    by blast
  from th have five: "length default_palette = 5" by blast
  have "py_mod 7 (length (resolve_palette (Some []) None)) = Inr 2"
    using m unfolding p five by simp
  with e p g show ?thesis by (simp add: default_palette_def)
qed

text \<open>
  As the specification words it, \<open>None\<close> is replaced by the five-colour palette. It is not
  where the default template has a colorway that is not empty: the builder then uses the
  template's colours, here for the one source node and its link.
\<close>

theorem palette_never_empty_counterexample:
  "resolve_palette (Some [''#636efa'', ''#ef553b'']) None = [''#636efa'', ''#ef553b''] \<and>
   resolve_palette (Some [''#636efa'', ''#ef553b'']) None \<noteq> default_palette \<and>
   concept_prediction_sankey hex_color (Some [''#636efa'', ''#ef553b'']) [''A''] [''X''] [[PyInt 1]]
     None ''#111827'' =
     Inr (figure_of [''A'', ''X''] [''#636efa'', ''#111827''] [0] [1]
            [Float False 1023 0] (Some [''#636efa'']))"
  by (simp add: resolve_palette_None default_palette_def concept_prediction_sankey_unfold
        assigned_colors_def int_to_float_1 figure_of_def hex_color_def)


subsection \<open>When the builder raises\<close>

text \<open>
  C9. The builder raises an error exactly when the flow matrix has the wrong shape, or holds
  a cell that \<^verbatim>\<open>float\<close> cannot convert, which is an integer of magnitude
  \<open>2 ^ 1024 - 2 ^ 970\<close> or more (every float converts), or the palette arguments give a node
  a colour that the charting library does not take for a colour. The error is one of the
  builder's two \<^verbatim>\<open>ValueError\<close>s, the \<^verbatim>\<open>OverflowError\<close> of \<^verbatim>\<open>float\<close> or the library's
  \<^verbatim>\<open>ValueError\<close> for the node colours; with the right shape it is one of the last two, and
  with the right shape and cells that convert it is the library's. Cells below zero are
  not checked: in every figure the builder returns, a cell below zero has its link, and the
  link carries \<^verbatim>\<open>float\<close> of the cell, with the sign bit set.
\<close>

theorem raises_iff:
  "((\<exists>e. concept_prediction_sankey valid_color colorway concepts predictions flows
           concept_colors prediction_color = Inl e) \<longleftrightarrow>
      \<not> shape_ok concepts predictions flows \<or> \<not> list_all (list_all float_ok) flows \<or>
      \<not> list_all valid_color
          (assigned_colors colorway concepts predictions concept_colors prediction_color)) \<and>
   (concept_prediction_sankey valid_color colorway concepts predictions flows concept_colors
      prediction_color = Inl e \<longrightarrow>
      e = ValueError ''flows rows must match number of concepts'' \<or>
      e = ValueError ''each flow row must match number of predictions'' \<or>
      e = OverflowError ''int too large to convert to float'' \<or>
      e = PlotlyValueError ''sankey.node.color'') \<and>
   (shape_ok concepts predictions flows \<and>
    concept_prediction_sankey valid_color colorway concepts predictions flows concept_colors
      prediction_color = Inl e \<longrightarrow>
      e = OverflowError ''int too large to convert to float'' \<or>
      e = PlotlyValueError ''sankey.node.color'') \<and>
   (shape_ok concepts predictions flows \<and> list_all (list_all float_ok) flows \<and>
    concept_prediction_sankey valid_color colorway concepts predictions flows concept_colors
      prediction_color = Inl e \<longrightarrow>
      e = PlotlyValueError ''sankey.node.color'') \<and>
   (concept_prediction_sankey valid_color colorway concepts predictions flows concept_colors
      prediction_color = Inr d \<and>
    i < length flows \<and> j < length (flows ! i) \<and> negative_cell (flows ! i ! j) \<longrightarrow>
      (\<exists>f. py_float (flows ! i ! j) = Inr f \<and> fsign f \<and>
           (i, length concepts + j, f) \<in> set (links d))) \<and>
   float_ok (PyFloat x) \<and>
   (float_ok (PyInt n) \<longleftrightarrow> \<bar>n\<bar> < 2 ^ 1024 - 2 ^ 970)"
proof -
  let ?r = "concept_prediction_sankey valid_color colorway concepts predictions flows
      concept_colors prediction_color"
  have 1: "(\<exists>e. ?r = Inl e) \<longleftrightarrow>
      \<not> shape_ok concepts predictions flows \<or> \<not> list_all (list_all float_ok) flows \<or>
      \<not> list_all valid_color
          (assigned_colors colorway concepts predictions concept_colors prediction_color)"
    using concept_prediction_sankey_returns_iff
      [of valid_color colorway concepts predictions flows concept_colors prediction_color]
    by (cases ?r) auto
  have 2: "?r = Inl e \<longrightarrow>
      e = ValueError ''flows rows must match number of concepts'' \<or>
      e = ValueError ''each flow row must match number of predictions'' \<or>
      e = OverflowError ''int too large to convert to float'' \<or>
      e = PlotlyValueError ''sankey.node.color''"
    using concept_prediction_sankey_Inl by blast
  have 3: "shape_ok concepts predictions flows \<and> ?r = Inl e \<longrightarrow>
      e = OverflowError ''int too large to convert to float'' \<or>
      e = PlotlyValueError ''sankey.node.color''"
    unfolding concept_prediction_sankey_unfold shape_ok_def
    by (auto split: sum.splits if_splits dest: rows_loop_Inl_shape)
  have 4: "shape_ok concepts predictions flows \<and> list_all (list_all float_ok) flows \<and>
      ?r = Inl e \<longrightarrow> e = PlotlyValueError ''sankey.node.color''"
  proof
    assume a: "shape_ok concepts predictions flows \<and> list_all (list_all float_ok) flows \<and>
      ?r = Inl e"
    then have "\<not> list_all valid_color
        (assigned_colors colorway concepts predictions concept_colors prediction_color)"
      using 1 by blast
    moreover from a obtain s t w where
      "rows_loop (length concepts) (length predictions) 0 flows ([], [], []) = Inr (s, t, w)"
      using rows_loop_Inr_iff [of "length concepts" "length predictions" 0 flows "[]" "[]" "[]"]
        map_py_float_Inr_iff [of "\<lambda>l. snd (snd l)" "matrix_links (length concepts) 0 flows"]
        matrix_links_float_ok [of "length concepts" 0 flows]
      by (auto simp: shape_ok_def)
    ultimately show "e = PlotlyValueError ''sankey.node.color''"
      using a by (auto simp: concept_prediction_sankey_unfold shape_ok_def)
  qed
  have 5: "?r = Inr d \<and> i < length flows \<and> j < length (flows ! i) \<and>
      negative_cell (flows ! i ! j) \<longrightarrow>
        (\<exists>f. py_float (flows ! i ! j) = Inr f \<and> fsign f \<and>
           (i, length concepts + j, f) \<in> set (links d))"
  proof
    assume a: "?r = Inr d \<and> i < length flows \<and> j < length (flows ! i) \<and>
      negative_cell (flows ! i ! j)"
    then have nz: "\<not> py_eq_zero (flows ! i ! j)" by (simp add: negative_cell_nonzero)
    from a nz links_of_cell [of valid_color colorway concepts predictions flows concept_colors
        prediction_color d i j]
    obtain f where f: "py_float (flows ! i ! j) = Inr f"
      "(i, length concepts + j, f) \<in> set (links d)"
      by blast
    moreover have "fsign f" using a f(1) negative_cell_float by blast
    ultimately show "\<exists>f. py_float (flows ! i ! j) = Inr f \<and> fsign f \<and>
        (i, length concepts + j, f) \<in> set (links d)"
      by blast
  qed
  have 6: "float_ok (PyFloat x)" by (rule float_ok_PyFloat)
  have 7: "float_ok (PyInt n) \<longleftrightarrow> \<bar>n\<bar> < 2 ^ 1024 - 2 ^ 970" by (rule float_ok_PyInt)
  from 1 2 3 4 5 6 7 show ?thesis by blast
qed

theorem raises_iff_witness:
  "shape_ok [''A''] [''X'', ''Y''] [[PyInt (- 3), PyFloat (Float True 1023 0)]] \<and>
   list_all (list_all float_ok) [[PyInt (- 3), PyFloat (Float True 1023 0)]] \<and>
   list_all hex_color (assigned_colors None [''A''] [''X'', ''Y''] None ''#111827'') \<and>
   \<not> (\<exists>e. concept_prediction_sankey hex_color None [''A''] [''X'', ''Y'']
            [[PyInt (- 3), PyFloat (Float True 1023 0)]] None ''#111827'' = Inl e) \<and>
   concept_prediction_sankey hex_color None [''A''] [''X'', ''Y'']
     [[PyInt (- 3), PyFloat (Float True 1023 0)]] None ''#111827'' =
     Inr (figure_of [''A'', ''X'', ''Y''] [''#4c78a8'', ''#111827'', ''#111827'']
            [0, 0] [1, 2] [Float True 1024 2251799813685248, Float True 1023 0]
            (Some [''#4c78a8'', ''#4c78a8''])) \<and>
   negative_cell ([[PyInt (- 3), PyFloat (Float True 1023 0)]] ! 0 ! 0) \<and>
   (\<exists>f. py_float ([[PyInt (- 3), PyFloat (Float True 1023 0)]] ! 0 ! 0) = Inr f \<and> fsign f \<and>
        (0, length [''A''] + 0, f) \<in>
          set (links (figure_of [''A'', ''X'', ''Y''] [''#4c78a8'', ''#111827'', ''#111827'']
                 [0, 0] [1, 2] [Float True 1024 2251799813685248, Float True 1023 0]
                 (Some [''#4c78a8'', ''#4c78a8''])))) \<and>
   shape_ok [''A''] [''X''] [[PyInt (2 ^ 1024 - 2 ^ 970)]] \<and>
   \<not> list_all (list_all float_ok) [[PyInt (2 ^ 1024 - 2 ^ 970)]] \<and>
   concept_prediction_sankey hex_color None [''A''] [''X''] [[PyInt (2 ^ 1024 - 2 ^ 970)]] None
     ''#111827'' = Inl (OverflowError ''int too large to convert to float'') \<and>
   shape_ok [''A''] [''X''] [[PyInt 5]] \<and>
   list_all (list_all float_ok) [[PyInt 5]] \<and>
   \<not> list_all hex_color (assigned_colors None [''A''] [''X''] None ''teal-ish'') \<and>
   concept_prediction_sankey hex_color None [''A''] [''X''] [[PyInt 5]] None ''teal-ish'' =
     Inl (PlotlyValueError ''sankey.node.color'')"
proof -
  let ?fl = "[[PyInt (- 3), PyFloat (Float True 1023 0)]]"
  let ?big = "[[PyInt (2 ^ 1024 - 2 ^ 970)]]"
  let ?d = "figure_of [''A'', ''X'', ''Y''] [''#4c78a8'', ''#111827'', ''#111827'']
            [0, 0] [1, 2] [Float True 1024 2251799813685248, Float True 1023 0]
            (Some [''#4c78a8'', ''#4c78a8''])"
  note th = raises_iff [of hex_color None "[''A'']" "[''X'', ''Y'']" ?fl None "''#111827''" _
      ?d 0 0]
  have shape: "shape_ok [''A''] [''X'', ''Y''] ?fl" by (simp add: shape_ok_def)
  have cells: "list_all (list_all float_ok) ?fl"
    by (simp add: float_ok_PyInt float_ok_PyFloat)
  have colours: "list_all hex_color (assigned_colors None [''A''] [''X'', ''Y''] None ''#111827'')"
    by (simp add: assigned_colors_def resolve_palette_None default_palette_def hex_color_def)
  have run: "concept_prediction_sankey hex_color None [''A''] [''X'', ''Y''] ?fl None ''#111827''
      = Inr ?d"
    by (simp add: concept_prediction_sankey_def int_to_float_neg3 py_mod_def
          py_getitem_def resolve_palette_def template_or_given_def default_palette_def
          sankey_figure_def validate_colors_def figure_of_def hex_color_def Let_def)
  have neg: "negative_cell (?fl ! 0 ! 0)" by simp
  from th shape cells colours
  have none: "\<not> (\<exists>e. concept_prediction_sankey hex_color None [''A''] [''X'', ''Y''] ?fl None
      ''#111827'' = Inl e)"
    by blast
  from th run neg
  have link: "\<exists>f. py_float (?fl ! 0 ! 0) = Inr f \<and> fsign f \<and>
      (0, length [''A''] + 0, f) \<in> set (links ?d)"
    by simp
  note th' = raises_iff [of hex_color None "[''A'']" "[''X'']" ?big None "''#111827''"]
  have shape': "shape_ok [''A''] [''X''] ?big" by (simp add: shape_ok_def)
  have cells': "\<not> list_all (list_all float_ok) ?big" by (simp add: float_ok_PyInt)
  have colours': "list_all hex_color (assigned_colors None [''A''] [''X''] None ''#111827'')"
    by (simp add: assigned_colors_def resolve_palette_None default_palette_def hex_color_def)
  from th' shape' cells' obtain e where
    e: "concept_prediction_sankey hex_color None [''A''] [''X''] ?big None ''#111827'' = Inl e"
    by blast
  have "int_to_float (2 ^ 1024 - 2 ^ 970) =
      Inl (OverflowError ''int too large to convert to float'')"
    by (simp add: int_to_float_Inl_iff)
  then have "e \<noteq> PlotlyValueError ''sankey.node.color''"
    using e by (auto simp: concept_prediction_sankey_unfold)
  with th' shape' e have "e = OverflowError ''int too large to convert to float''"
    by blast
  with e have raised: "concept_prediction_sankey hex_color None [''A''] [''X''] ?big None
      ''#111827'' = Inl (OverflowError ''int too large to convert to float'')"
    by simp
  note th'' = raises_iff [of hex_color None "[''A'']" "[''X'']" "[[PyInt 5]]" None "''teal-ish''"]
  have shape'': "shape_ok [''A''] [''X''] [[PyInt 5]]" by (simp add: shape_ok_def)
  have cells'': "list_all (list_all float_ok) [[PyInt 5]]" by (simp add: float_ok_PyInt)
  have colours'': "\<not> list_all hex_color (assigned_colors None [''A''] [''X''] None ''teal-ish'')"
    by (simp add: assigned_colors_def resolve_palette_None default_palette_def hex_color_def)
  from th'' colours'' obtain e' where
    e': "concept_prediction_sankey hex_color None [''A''] [''X''] [[PyInt 5]] None ''teal-ish''
      = Inl e'"
    by blast
  with th'' shape'' cells'' have "e' = PlotlyValueError ''sankey.node.color''"
    by blast
  with e' have refused: "concept_prediction_sankey hex_color None [''A''] [''X''] [[PyInt 5]]
      None ''teal-ish'' = Inl (PlotlyValueError ''sankey.node.color'')"
    by simp
  from shape cells colours none run neg link shape' cells' raised shape'' cells'' colours''
    refused
  show ?thesis by blast
qed

text \<open>
  As the specification words it, only a wrong shape raises, and every cell below zero
  is emitted. Neither holds in these two calls. In the first the shape is right and the
  one cell is a negative integer that \<^verbatim>\<open>float\<close> cannot convert: the builder raises
  \<^verbatim>\<open>OverflowError\<close>. In the second the shape is right and the one cell is -1.0, but the
  palette holds a string that is not a colour: the charting library raises its
  \<^verbatim>\<open>ValueError\<close> and no link is emitted.
\<close>

theorem raises_iff_counterexample:
  "shape_ok [''A''] [''X''] [[PyInt (- (2 ^ 1024))]] \<and>
   negative_cell (PyInt (- (2 ^ 1024))) \<and>
   concept_prediction_sankey hex_color None [''A''] [''X''] [[PyInt (- (2 ^ 1024))]] None
     ''#111827'' = Inl (OverflowError ''int too large to convert to float'') \<and>
   shape_ok [''A''] [''X''] [[PyFloat (Float True 1023 0)]] \<and>
   negative_cell (PyFloat (Float True 1023 0)) \<and>
   \<not> hex_color ''notacolor'' \<and>
   concept_prediction_sankey hex_color None [''A''] [''X''] [[PyFloat (Float True 1023 0)]]
     (Some [''notacolor'']) ''#111827'' = Inl (PlotlyValueError ''sankey.node.color'')"
proof -
  have "int_to_float (- (2 ^ 1024)) =
      Inl (OverflowError ''int too large to convert to float'')"
    by (rule int_to_float_overflow) simp
  then have 1: "shape_ok [''A''] [''X''] [[PyInt (- (2 ^ 1024))]] \<and>
      negative_cell (PyInt (- (2 ^ 1024))) \<and>
      concept_prediction_sankey hex_color None [''A''] [''X''] [[PyInt (- (2 ^ 1024))]] None
        ''#111827'' = Inl (OverflowError ''int too large to convert to float'')"
    by (simp add: shape_ok_def concept_prediction_sankey_unfold)
  have 2: "shape_ok [''A''] [''X''] [[PyFloat (Float True 1023 0)]] \<and>
      negative_cell (PyFloat (Float True 1023 0)) \<and>
      \<not> hex_color ''notacolor'' \<and>
      concept_prediction_sankey hex_color None [''A''] [''X''] [[PyFloat (Float True 1023 0)]]
        (Some [''notacolor'']) ''#111827'' = Inl (PlotlyValueError ''sankey.node.color'')"
    by (simp add: shape_ok_def concept_prediction_sankey_def py_mod_def
          py_getitem_def resolve_palette_Some sankey_figure_def validate_colors_def
          hex_color_def Let_def)
  from 1 2 show ?thesis by blast
qed


subsection \<open>Aligned arrays\<close>

text \<open>
  C10. Whenever the builder returns a figure, its parallel arrays are aligned: the source,
  target, value and link colour arrays have one entry per link, and the node labels and the
  node colours have one entry per node, \<open>len(concepts) + len(predictions)\<close> of them.
\<close>

theorem parallel_arrays_aligned:
  assumes "concept_prediction_sankey valid_color colorway concepts predictions flows concept_colors
             prediction_color = Inr d"
  shows "length (link_target d) = length (link_source d) \<and>
         length (link_value d) = length (link_source d) \<and>
         (\<exists>cs. link_color d = Some cs \<and> length cs = length (link_source d)) \<and>
         length (node_label d) = length concepts + length predictions \<and>
         length (node_color d) = length concepts + length predictions"
proof -
  note f = concept_prediction_sankey_fields [OF assms]
  have "length (map Inr (link_value d) :: (error + pyfloat) list) = length (link_source d)"
    unfolding f(6) f(4) by simp
  then have "length (link_value d) = length (link_source d)" by simp
  moreover have "length (link_target d) = length (link_source d)"
    unfolding f(4) f(5) by simp
  moreover have "\<exists>cs. link_color d = Some cs \<and> length cs = length (link_source d)"
    using f(7) by simp
  moreover have "length (node_label d) = length concepts + length predictions"
    unfolding f(2) by simp
  moreover have "length (node_color d) = length concepts + length predictions"
    unfolding f(3) by simp
  ultimately show ?thesis by blast
qed

theorem parallel_arrays_aligned_witness:
  "concept_prediction_sankey hex_color (Some [''#636efa'', ''#ef553b'']) [''cat'', ''dog'', ''fox'']
      [''yes'', ''no''] [[PyInt 2, PyInt 1], [PyInt 0, PyInt 0], [PyInt 1, PyInt 2]] None ''#111827''
    = Inr (figure_of [''cat'', ''dog'', ''fox'', ''yes'', ''no'']
             [''#636efa'', ''#ef553b'', ''#636efa'', ''#111827'', ''#111827'']
             [0, 0, 2, 2] [3, 4, 3, 4]
             [Float False 1024 0, Float False 1023 0, Float False 1023 0, Float False 1024 0]
             (Some [''#636efa'', ''#636efa'', ''#636efa'', ''#636efa''])) \<and>
   length (link_target (figure_of [''cat'', ''dog'', ''fox'', ''yes'', ''no'']
             [''#636efa'', ''#ef553b'', ''#636efa'', ''#111827'', ''#111827'']
             [0, 0, 2, 2] [3, 4, 3, 4]
             [Float False 1024 0, Float False 1023 0, Float False 1023 0, Float False 1024 0]
             (Some [''#636efa'', ''#636efa'', ''#636efa'', ''#636efa'']))) = 4 \<and>
   length (node_color (figure_of [''cat'', ''dog'', ''fox'', ''yes'', ''no'']
             [''#636efa'', ''#ef553b'', ''#636efa'', ''#111827'', ''#111827'']
             [0, 0, 2, 2] [3, 4, 3, 4]
             [Float False 1024 0, Float False 1023 0, Float False 1023 0, Float False 1024 0]
             (Some [''#636efa'', ''#636efa'', ''#636efa'', ''#636efa'']))) = 5"
proof -
  let ?d = "figure_of [''cat'', ''dog'', ''fox'', ''yes'', ''no'']
             [''#636efa'', ''#ef553b'', ''#636efa'', ''#111827'', ''#111827'']
             [0, 0, 2, 2] [3, 4, 3, 4]
             [Float False 1024 0, Float False 1023 0, Float False 1023 0, Float False 1024 0]
             (Some [''#636efa'', ''#636efa'', ''#636efa'', ''#636efa''])"
  have run: "concept_prediction_sankey hex_color (Some [''#636efa'', ''#ef553b'']) [''cat'', ''dog'', ''fox'']
      [''yes'', ''no''] [[PyInt 2, PyInt 1], [PyInt 0, PyInt 0], [PyInt 1, PyInt 2]] None ''#111827''
      = Inr ?d"
    by (simp add: concept_prediction_sankey_def int_to_float_1 int_to_float_2 py_mod_def
          py_getitem_def resolve_palette_def template_or_given_def sankey_figure_def validate_colors_def figure_of_def hex_color_def)
  have src: "length (link_source ?d) = 4" by (simp add: sankey_figure_def validate_colors_def figure_of_def hex_color_def)
  from parallel_arrays_aligned [OF run] src
  have "length (link_target ?d) = 4" and "length (node_color ?d) = 5" by simp_all
  with run show ?thesis by blast
qed


end
